theory Spec2Isabelle
  imports Complex_Main
begin

section \<open>Strings\<close>

text \<open>
  A JavaScript string is modelled as the list of its Unicode code points (a lone
  surrogate counts as a code point of its own).  Every character class the program
  uses without the \<open>u\<close> flag (the separators, white space, the CJK block, ASCII
  letters and digits) lies outside the surrogate range, so reading the string by
  code points or by UTF-16 code units gives the same result; the one class used
  with the \<open>u\<close> flag (\<open>\p{Cf}\<close>) is defined on code points.
\<close>

type_synonym ustring = "nat list"

text \<open>
  White space as \<open>String.prototype.trim\<close> and the regular-expression class \<open>\s\<close>
  see it: TAB, LF, VT, FF, CR, SPACE, NBSP, U+1680, U+2000..U+200A, U+2028, U+2029,
  U+202F, U+205F, U+3000, U+FEFF.
\<close>

definition isWhiteSpace :: "nat \<Rightarrow> bool" where
  "isWhiteSpace c \<longleftrightarrow>
     c \<in> {9, 10, 11, 12, 13, 32, 160, 5760, 8232, 8233, 8239, 8287, 12288, 65279}
     \<or> (8192 \<le> c \<and> c \<le> 8202)"

definition trim :: "ustring \<Rightarrow> ustring" where
  "trim s = rev (dropWhile isWhiteSpace (rev (dropWhile isWhiteSpace s)))"

text \<open>\<open>raw == null ? '' : String(raw)\<close> for a cell that is a string or missing.\<close>

definition strOf :: "ustring option \<Rightarrow> ustring" where
  "strOf raw = (case raw of None \<Rightarrow> [] | Some s \<Rightarrow> s)"

text \<open>
  The separator class of \<open>tokenizeCell\<close>: U+3001, U+FF0C, comma, semicolon, U+FF0F,
  slash, newline.
\<close>

definition isSeparator :: "nat \<Rightarrow> bool" where
  "isSeparator c \<longleftrightarrow> c \<in> {12289, 65292, 44, 59, 65295, 47, 10}"

text \<open>
  \<open>s.split(/[...]+/)\<close>: the pieces between maximal runs of separators.  A run at the
  start or at the end of the string leaves an empty piece there, as in JavaScript.
  \<open>cur\<close> is the piece being read, reversed; \<open>inrun\<close> says that the previous character
  was a separator.
\<close>

fun splitOnSeparators :: "bool \<Rightarrow> ustring \<Rightarrow> ustring \<Rightarrow> ustring list" where
  "splitOnSeparators inrun cur [] = [rev cur]"
| "splitOnSeparators inrun cur (c # cs) =
     (if isSeparator c
      then (if inrun then splitOnSeparators True [] cs
            else rev cur # splitOnSeparators True [] cs)
      else splitOnSeparators False (c # cur) cs)"

definition tokenizeCell :: "ustring option \<Rightarrow> ustring list" where
  "tokenizeCell raw =
     (let s = trim (strOf raw)
      in if s = [] then []
         else filter (\<lambda>x. x \<noteq> []) (map trim (splitOnSeparators False [] s)))"

section \<open>Attendance classifier\<close>

text \<open>
  \<open>buildExcludeForAttRateSet\<close> of the dashboard page: the twelve day-off tokens that
  take a day out of the denominator.
\<close>

definition buildExcludeForAttRateSet :: "ustring set" where
  "buildExcludeForAttRateSet =
     {[20363], [20363, 20551], [20363, 20551, 26085], [20363, 20241],
      [20241], [20241, 20551], [20241, 20551, 26085], [22283], [38626],
      [35519, 20489], [35519, 20219], [36681, 27491]}"

text \<open>\<open>buildExcludeFromAbsSet\<close>: the same twelve tokens and U+672A, U+7279.\<close>

definition buildExcludeFromAbsSet :: "ustring set" where
  "buildExcludeFromAbsSet =
     {[20363], [20363, 20551], [20363, 20551, 26085], [20363, 20241],
      [20241], [20241, 20551], [20241, 20551, 26085], [22283], [38626],
      [35519, 20489], [35519, 20219], [36681, 27491], [26410], [29305]}"

text \<open>
  \<open>buildExcludeSet\<close> of the row normalizer: thirteen base tokens and the caller's
  additions, each trimmed, empty ones dropped.
\<close>

definition buildExcludeSet :: "ustring list \<Rightarrow> ustring set" where
  "buildExcludeSet list =
     {[20241], [20241, 20551], [20844, 20241], [29305, 20241], [30149, 20551],
      [20107, 20551], [21930, 20551], [23130, 20551], [29986, 20551],
      [32946, 23344], [79, 70, 70], [111, 102, 102], [38626]}
     \<union> set (filter (\<lambda>x. x \<noteq> []) (map trim list))"

text \<open>\<open>isShouldAttendCell\<close>, the same text in the normalizer and in the dashboard page.\<close>

definition isShouldAttendCell :: "ustring option \<Rightarrow> ustring set \<Rightarrow> bool" where
  "isShouldAttendCell raw exclude =
     (let s = trim (strOf raw)
      in if s = [] then True
         else \<not> list_ex (\<lambda>t. t \<in> exclude) (tokenizeCell (Some s)))"

datatype AttendanceStatus = normal | low | abnormal

text \<open>
  \<open>statusFromRate\<close>.  The rate is a real number here; the source compares an IEEE
  double with the double literals \<open>0.9\<close> and \<open>0.75\<close>.
\<close>

definition statusFromRate :: "real \<Rightarrow> AttendanceStatus" where
  "statusFromRate r =
     (if r \<ge> 9 / 10 then normal else if r \<ge> 3 / 4 then low else abnormal)"

record AttendanceSummary =
  rate :: real
  attended :: nat
  expected :: nat
  status :: AttendanceStatus

text \<open>
  \<open>ALNUM_RE\<close> is \<open>/^[A-Za-z0-9]+$/\<close> and \<open>HAS_CJK_RE\<close> is \<open>/[\u4e00-\u9fff]/\<close>, both
  as \<open>test\<close> applies them to a token.
\<close>

definition isAsciiAlnum :: "nat \<Rightarrow> bool" where
  "isAsciiAlnum c \<longleftrightarrow> (65 \<le> c \<and> c \<le> 90) \<or> (97 \<le> c \<and> c \<le> 122) \<or> (48 \<le> c \<and> c \<le> 57)"

definition ALNUM_RE :: "ustring \<Rightarrow> bool" where
  "ALNUM_RE t \<longleftrightarrow> t \<noteq> [] \<and> list_all isAsciiAlnum t"

definition HAS_CJK_RE :: "ustring \<Rightarrow> bool" where
  "HAS_CJK_RE t \<longleftrightarrow> list_ex (\<lambda>c. 19968 \<le> c \<and> c \<le> 40959) t"

definition isAutoAttendCell :: "ustring option \<Rightarrow> ustring set \<Rightarrow> bool" where
  "isAutoAttendCell raw excludeAbs =
     (let s = trim (strOf raw)
      in if s = [] then False
         else let tokens = tokenizeCell (Some s)
              in if list_ex (\<lambda>t. t \<in> excludeAbs) tokens then True
                 else (case tokens of
                         [t] \<Rightarrow> if ALNUM_RE t \<and> \<not> HAS_CJK_RE t then True else False
                       | _ \<Rightarrow> False))"

text \<open>
  A normalized row (\<open>GasRecordRow\<close>): the identity, the properties keyed by header
  name, and the side channels \<open>_bg\<close>, \<open>_fc\<close>, \<open>_att\<close>, \<open>_attendance\<close>,
  \<open>_attendanceRate\<close>, each absent (\<open>None\<close>) until assigned.  The source keeps all of
  them in one object; the model keeps the header-keyed properties apart, so it
  describes sheets none of whose headers is \<open>id\<close>, one of the five side-channel
  names, or a name that a JavaScript object treats specially (\<open>__proto__\<close>).  The
  entries of \<open>_att\<close> are the backend's flags, integers here.
\<close>

record GasRecordRow =
  row_id :: ustring
  props :: "ustring \<rightharpoonup> ustring"
  u_bg :: "ustring list option"
  u_fc :: "ustring list option"
  u_att :: "int list option"
  u_attendance :: "AttendanceSummary option"
  u_attendanceRate :: "real option"

text \<open>\<open>xs[i]\<close> of JavaScript: \<open>undefined\<close> (here \<open>None\<close>) outside the array.\<close>

definition jsIndex :: "'a list \<Rightarrow> int \<Rightarrow> 'a option" where
  "jsIndex xs i = (if 0 \<le> i \<and> i < int (length xs) then Some (xs ! nat i) else None)"

text \<open>Truthiness of \<open>att[i]\<close>: a number other than zero; \<open>undefined\<close> is falsy.\<close>

definition truthyFlag :: "int option \<Rightarrow> bool" where
  "truthyFlag x = (case x of None \<Rightarrow> False | Some n \<Rightarrow> n \<noteq> 0)"

definition isActualAttendCell ::
  "int \<Rightarrow> GasRecordRow \<Rightarrow> ustring option \<Rightarrow> ustring set \<Rightarrow> bool" where
  "isActualAttendCell colIndex row cellValue excludeAbs =
     (if isAutoAttendCell cellValue excludeAbs then True
      else (case u_att row of
              Some att \<Rightarrow> if length att > 0 then truthyFlag (jsIndex att colIndex) else False
            | None \<Rightarrow> False))"

section \<open>Row normalizer\<close>

text \<open>
  The raw payload.  \<open>v\<close> is the row's cell texts; \<open>bg\<close>, \<open>fc\<close>, \<open>att\<close>, \<open>headersISO\<close>,
  \<open>dateCols\<close> and \<open>error\<close> are optional in the source (\<open>None\<close> when absent).
\<close>

record GasRow =
  row_v :: "ustring list"
  row_bg :: "ustring list option"
  row_fc :: "ustring list option"
  row_att :: "int list option"

record GasPayload =
  headers :: "ustring list"
  headersISO :: "ustring list option"
  rows :: "GasRow list"
  dateCols :: "int list option"
  error :: "ustring option"

text \<open>
  \<open>GasTransformOptions\<close>; an absent option is its falsy default (\<open>False\<close>, the empty
  string, the empty list).
\<close>

record GasTransformOptions =
  disableAttendance :: bool
  sheetName :: ustring
  excludeForAttRate :: "ustring list"

text \<open>\<open>s.includes(pat)\<close>.\<close>

fun includesStr :: "ustring \<Rightarrow> ustring \<Rightarrow> bool" where
  "includesStr [] pat = (pat = [])"
| "includesStr (c # cs) pat = (take (length pat) (c # cs) = pat \<or> includesStr cs pat)"

text \<open>The index of the first element that satisfies \<open>P\<close>, as a \<open>for\<close> loop finds it.\<close>

fun firstIndex :: "('a \<Rightarrow> bool) \<Rightarrow> 'a list \<Rightarrow> nat option" where
  "firstIndex P [] = None"
| "firstIndex P (x # xs) = (if P x then Some 0 else map_option Suc (firstIndex P xs))"

text \<open>
  \<open>findNameIndex\<close>: first a header that is exactly one of U+59D3 U+540D, Name, name,
  U+54E1 U+5DE5 U+59D3 U+540D, U+4E2D U+6587 U+59D3 U+540D; failing that, a header
  that contains U+59D3 U+540D or matches \<open>/^name$/i\<close>; else \<open>-1\<close>.
\<close>

definition isExactNameHeader :: "ustring \<Rightarrow> bool" where
  "isExactNameHeader h0 =
     (let h = trim h0
      in h \<noteq> [] \<and> h \<in> set [[22995, 21517], [78, 97, 109, 101], [110, 97, 109, 101],
                              [21729, 24037, 22995, 21517], [20013, 25991, 22995, 21517]])"

definition isLooseNameHeader :: "ustring \<Rightarrow> bool" where
  "isLooseNameHeader h0 =
     (let h = trim h0
      in h \<noteq> [] \<and>
         (includesStr h [22995, 21517] \<or>
          (case h of
             [a, b, c, d] \<Rightarrow> a \<in> {110, 78} \<and> b \<in> {97, 65} \<and> c \<in> {109, 77} \<and> d \<in> {101, 69}
           | _ \<Rightarrow> False)))"

definition findNameIndex :: "ustring list \<Rightarrow> int" where
  "findNameIndex hs =
     (case firstIndex isExactNameHeader hs of
        Some i \<Rightarrow> int i
      | None \<Rightarrow> (case firstIndex isLooseNameHeader hs of Some i \<Rightarrow> int i | None \<Rightarrow> - 1))"

text \<open>
  \<open>calcAttendance\<close> of the normalizer.  It returns no summary unless the trimmed
  sheet name contains U+73ED U+8868, the date columns and the headers are non-empty
  and the row carries a non-empty \<open>att\<close> array.  The loop over the date columns is
  the fold of \<open>calcStep\<close> over the pair (shouldDays, actDays).
\<close>

definition calcStep ::
  "ustring list \<Rightarrow> GasRow \<Rightarrow> int list \<Rightarrow> ustring set \<Rightarrow> nat \<times> nat \<Rightarrow> int \<Rightarrow> nat \<times> nat" where
  "calcStep hs r att exclude acc ci =
     (case jsIndex hs ci of
        None \<Rightarrow> acc
      | Some hk \<Rightarrow>
          if hk = [] \<or> trim hk = [] then acc
          else if ci < 0 \<or> ci \<ge> int (length (row_v r)) then acc
          else if isShouldAttendCell (jsIndex (row_v r) ci) exclude
               then (fst acc + 1, if truthyFlag (jsIndex att ci) then snd acc + 1 else snd acc)
               else acc)"

definition mkSummary :: "nat \<Rightarrow> nat \<Rightarrow> real \<Rightarrow> AttendanceSummary" where
  "mkSummary att_n exp_n r =
     \<lparr>rate = r, attended = att_n, expected = exp_n, status = statusFromRate r\<rparr>"

definition calcAttendance ::
  "ustring list \<Rightarrow> int list option \<Rightarrow> GasRow \<Rightarrow> GasTransformOptions \<Rightarrow> AttendanceSummary option" where
  "calcAttendance hs dcols r options =
     (if \<not> includesStr (trim (sheetName options)) [29677, 34920] then None
      else case dcols of
        None \<Rightarrow> None
      | Some cols \<Rightarrow>
          if length cols = 0 then None
          else if length hs = 0 then None
          else (case row_att r of
                  None \<Rightarrow> None
                | Some att \<Rightarrow>
                    if length att = 0 then None
                    else let exclude = buildExcludeSet (excludeForAttRate options);
                             days = foldl (calcStep hs r att exclude) (0, 0) cols;
                             exp_n = fst days;
                             att_n = snd days;
                             r = (if exp_n \<noteq> 0 then real att_n / real exp_n else 0)
                         in Some (mkSummary att_n exp_n r)))"

text \<open>
  \<open>cleanForBlankCheck\<close>: drop the listed invisible characters (U+00A0, U+200B..U+200F,
  U+202A..U+202E, U+2060, U+2066..U+2069, U+FEFF), then every character of general
  category Cf, then all white space, then trim.  The Cf table belongs to the
  JavaScript engine, not to the repository: it is the parameter \<open>cf\<close>.
\<close>

definition isInvisible :: "nat \<Rightarrow> bool" where
  "isInvisible c \<longleftrightarrow>
     c = 160 \<or> (8203 \<le> c \<and> c \<le> 8207) \<or> (8234 \<le> c \<and> c \<le> 8238) \<or> c = 8288
     \<or> (8294 \<le> c \<and> c \<le> 8297) \<or> c = 65279"

text \<open>
  One such table, used where a concrete one is needed: the characters of general
  category Cf in Unicode 14.0.
\<close>

definition cfUnicode14 :: "nat \<Rightarrow> bool" where
  "cfUnicode14 c \<longleftrightarrow>
     c = 173 \<or> (1536 \<le> c \<and> c \<le> 1541) \<or> c = 1564 \<or> c = 1757 \<or> c = 1807
     \<or> (2192 \<le> c \<and> c \<le> 2193) \<or> c = 2274 \<or> c = 6158
     \<or> (8203 \<le> c \<and> c \<le> 8207) \<or> (8234 \<le> c \<and> c \<le> 8238)
     \<or> (8288 \<le> c \<and> c \<le> 8292) \<or> (8294 \<le> c \<and> c \<le> 8303)
     \<or> c = 65279 \<or> (65529 \<le> c \<and> c \<le> 65531) \<or> c = 69821 \<or> c = 69837
     \<or> (78896 \<le> c \<and> c \<le> 78904) \<or> (113824 \<le> c \<and> c \<le> 113827)
     \<or> (119155 \<le> c \<and> c \<le> 119162) \<or> c = 917505
     \<or> (917536 \<le> c \<and> c \<le> 917631)"

definition cleanForBlankCheck :: "(nat \<Rightarrow> bool) \<Rightarrow> ustring option \<Rightarrow> ustring" where
  "cleanForBlankCheck cf cell =
     trim (filter (\<lambda>c. \<not> isWhiteSpace c)
            (filter (\<lambda>c. \<not> cf c) (filter (\<lambda>c. \<not> isInvisible c) (strOf cell))))"

text \<open>
  \<open>isBlankRow\<close>: the loop runs over the header positions and returns false at the
  first cell that does not clean to the empty string.
\<close>

definition isBlankRow :: "(nat \<Rightarrow> bool) \<Rightarrow> ustring list \<Rightarrow> GasRow \<Rightarrow> bool" where
  "isBlankRow cf hs r =
     list_all (\<lambda>i. cleanForBlankCheck cf (jsIndex (row_v r) (int i)) = []) [0..<length hs]"

text \<open>Decimal rendering of an index, as a template literal or \<open>String\<close> gives it.\<close>

fun natToString :: "nat \<Rightarrow> ustring" where
  "natToString n = (if n < 10 then [48 + n] else natToString (n div 10) @ [48 + n mod 10])"

declare natToString.simps [simp del]

definition intToString :: "int \<Rightarrow> ustring" where
  "intToString i = (if i < 0 then 45 # natToString (nat (- i)) else natToString (nat i))"

text \<open>\<open>headers[i] || `col_${i + 1}`\<close>.\<close>

definition columnKey :: "ustring list \<Rightarrow> nat \<Rightarrow> ustring" where
  "columnKey hs i = (if hs ! i = [] then [99, 111, 108, 95] @ natToString (i + 1) else hs ! i)"

text \<open>
  The body of the \<open>map\<close> callback of \<open>gasPayloadToRows\<close>: the properties written in
  header order (a later column with the same key overwrites an earlier one), the
  side channels, the summary when \<open>calcAttendance\<close> gives one, and the mirror of the
  name column under U+59D3 U+540D.
\<close>

definition toRecordRow ::
  "GasPayload \<Rightarrow> GasTransformOptions \<Rightarrow> ustring list \<Rightarrow> int \<Rightarrow> nat \<Rightarrow> GasRow \<Rightarrow> GasRecordRow" where
  "toRecordRow payload options hs nameIdx idx r =
     (let obj0 = \<lparr>row_id = [103, 97, 115, 95] @ natToString idx,
                  props = fold (\<lambda>i m. m(columnKey hs i \<mapsto> strOf (jsIndex (row_v r) (int i))))
                            [0..<length hs] Map.empty,
                  u_bg = row_bg r, u_fc = row_fc r, u_att = row_att r,
                  u_attendance = None, u_attendanceRate = None\<rparr>;
          obj1 = (if \<not> disableAttendance options
                  then (case calcAttendance hs (dateCols payload) r options of
                          Some att \<Rightarrow> obj0\<lparr>u_attendance := Some att, u_attendanceRate := Some (rate att)\<rparr>
                        | None \<Rightarrow> obj0)
                  else obj0)
      in if nameIdx \<ge> 0
         then obj1\<lparr>props := (props obj1)([22995, 21517] :=
                      (case jsIndex (row_v r) nameIdx of
                         Some x \<Rightarrow> Some x
                       | None \<Rightarrow> props obj1 [22995, 21517]))\<rparr>
         else obj1)"

definition gasPayloadToRows ::
  "(nat \<Rightarrow> bool) \<Rightarrow> GasPayload \<Rightarrow> GasTransformOptions \<Rightarrow> ustring list \<times> GasRecordRow list" where
  "gasPayloadToRows cf payload options =
     (let hs = headers payload;
          nameIdx = findNameIndex hs;
          kept = filter (\<lambda>r. \<not> isBlankRow cf hs r) (rows payload)
      in (hs, map (\<lambda>(idx, r). toRecordRow payload options hs nameIdx idx r)
                (zip [0..<length kept] kept)))"

section \<open>Attendance aggregator\<close>

text \<open>
  \<open>getNameFromRow\<close>: the property \<open>name\<close>, else the property U+59D3 U+540D, trimmed;
  the placeholder (U+FF08 U+672A U+547D U+540D U+FF09) when that is empty.
\<close>

definition getNameFromRow :: "GasRecordRow \<Rightarrow> ustring" where
  "getNameFromRow r =
     (let v = (case props r [110, 97, 109, 101] of
                 Some x \<Rightarrow> x
               | None \<Rightarrow> (case props r [22995, 21517] of Some x \<Rightarrow> x | None \<Rightarrow> []));
          t = trim v
      in if t = [] then [65288, 26410, 21629, 21517, 65289] else t)"

text \<open>\<open>iso && iso.match(/^\d{4}-\d{2}-\d{2}$/)\<close>.\<close>

definition isDigit :: "nat \<Rightarrow> bool" where
  "isDigit c \<longleftrightarrow> 48 \<le> c \<and> c \<le> 57"

definition matchesIsoDate :: "ustring \<Rightarrow> bool" where
  "matchesIsoDate s \<longleftrightarrow>
     length s = 10 \<and> list_all isDigit (take 4 s) \<and> s ! 4 = 45
     \<and> list_all isDigit (take 2 (drop 5 s)) \<and> s ! 7 = 45 \<and> list_all isDigit (drop 8 s)"

text \<open>
  The date columns both \<open>refreshWorstAttendance\<close> and \<open>doQuery\<close> work with: the
  payload's \<open>dateCols\<close>, or, when that is absent or empty and \<open>headersISO\<close> is not,
  the positions of \<open>headersISO\<close> that hold an ISO date.
\<close>

definition payloadHeadersISO :: "GasPayload \<Rightarrow> ustring list" where
  "payloadHeadersISO payload = (case headersISO payload of Some h \<Rightarrow> h | None \<Rightarrow> [])"

definition effectiveDateCols :: "GasPayload \<Rightarrow> int list" where
  "effectiveDateCols payload =
     (let dc = (case dateCols payload of Some d \<Rightarrow> d | None \<Rightarrow> []);
          hsISO = payloadHeadersISO payload
      in if length dc = 0 \<and> length hsISO \<noteq> 0
         then map int (filter (\<lambda>i. matchesIsoDate (hsISO ! i)) [0..<length hsISO])
         else dc)"

text \<open>
  \<open>byName\<close> is a \<open>Map\<close> from name to rows, which keeps the order in which the names
  were first seen: an association list, a new name at the end.
\<close>

fun pushByName ::
  "ustring \<Rightarrow> GasRecordRow \<Rightarrow> (ustring \<times> GasRecordRow list) list \<Rightarrow> (ustring \<times> GasRecordRow list) list" where
  "pushByName nm r [] = [(nm, [r])]"
| "pushByName nm r ((k, rs) # m) =
     (if k = nm then (k, rs @ [r]) # m else (k, rs) # pushByName nm r m)"

definition groupByName :: "GasRecordRow list \<Rightarrow> (ustring \<times> GasRecordRow list) list" where
  "groupByName gasRows =
     foldl (\<lambda>m r. let nm = getNameFromRow r in if nm = [] then m else pushByName nm r m)
       [] gasRows"

text \<open>\<open>Set.prototype.add\<close> on a set kept as the list of its elements in insertion order.\<close>

definition setAdd :: "'a \<Rightarrow> 'a list \<Rightarrow> 'a list" where
  "setAdd x xs = (if x \<in> set xs then xs else xs @ [x])"

text \<open>
  \<open>String(headersISO?.[ci] || '').trim() || String(hk || '').trim() || String(ci)\<close>.
\<close>

definition dateIdentity :: "ustring list \<Rightarrow> ustring \<Rightarrow> int \<Rightarrow> ustring" where
  "dateIdentity hsISO hk ci =
     (let a = trim (case jsIndex hsISO ci of Some x \<Rightarrow> x | None \<Rightarrow> [])
      in if a \<noteq> [] then a
         else let b = trim hk in if b \<noteq> [] then b else intToString ci)"

text \<open>
  The body of the two nested loops of \<open>refreshWorstAttendance\<close>, on the pair
  (expectedSet, attendedSet), and the loops themselves.
\<close>

definition worstStep ::
  "ustring list \<Rightarrow> ustring list \<Rightarrow> GasRecordRow \<Rightarrow> ustring list \<times> ustring list \<Rightarrow> int
     \<Rightarrow> ustring list \<times> ustring list" where
  "worstStep hs hsISO row acc ci =
     (case jsIndex hs ci of
        None \<Rightarrow> acc
      | Some hk \<Rightarrow>
          if hk = [] \<or> trim hk = [] then acc
          else let cellValue = props row hk
               in if \<not> isShouldAttendCell cellValue buildExcludeForAttRateSet then acc
                  else let iso = dateIdentity hsISO hk ci
                       in (setAdd iso (fst acc),
                           if isActualAttendCell ci row cellValue buildExcludeFromAbsSet
                           then setAdd iso (snd acc) else snd acc))"

definition personSets ::
  "ustring list \<Rightarrow> ustring list \<Rightarrow> int list \<Rightarrow> GasRecordRow list \<Rightarrow> ustring list \<times> ustring list" where
  "personSets hs hsISO cols personRows =
     foldl (\<lambda>acc row. foldl (worstStep hs hsISO row) acc cols) ([], []) personRows"

record AttItem =
  item_id :: ustring
  item_name :: ustring
  summary :: AttendanceSummary

text \<open>The callback of \<open>byName.forEach\<close>: no item for a person whose expected set is empty.\<close>

definition personItem ::
  "ustring list \<Rightarrow> ustring list \<Rightarrow> int list \<Rightarrow> ustring \<times> GasRecordRow list \<Rightarrow> AttItem option" where
  "personItem hs hsISO cols g =
     (let sets = personSets hs hsISO cols (snd g);
          exp_n = length (fst sets);
          att_n = length (snd sets)
      in if exp_n = 0 then None
         else Some \<lparr>item_id = [97, 116, 116, 95] @ fst g, item_name = fst g,
                    summary = mkSummary att_n exp_n (real att_n / real exp_n)\<rparr>)"

text \<open>
  \<open>refreshWorstAttendance\<close> from the arrival of the payload on: the list it hands to
  \<open>setAttAll\<close>.  \<open>Array.prototype.sort\<close> is stable, as \<open>sort_key\<close> is.
\<close>

definition refreshWorstAttendance :: "(nat \<Rightarrow> bool) \<Rightarrow> GasPayload \<Rightarrow> ustring \<Rightarrow> AttItem list" where
  "refreshWorstAttendance cf payload source =
     (let norm = gasPayloadToRows cf payload
                   \<lparr>disableAttendance = True, sheetName = source, excludeForAttRate = []\<rparr>;
          hs = fst norm;
          gasRows = snd norm;
          hsISO = payloadHeadersISO payload;
          cols = effectiveDateCols payload
      in if length gasRows = 0 \<or> length cols = 0 then []
         else sort_key (\<lambda>it. rate (summary it))
                (concat (map (\<lambda>g. case personItem hs hsISO cols g of
                                     None \<Rightarrow> [] | Some it \<Rightarrow> [it])
                           (groupByName gasRows))))"

definition attWorst5 :: "AttItem list \<Rightarrow> AttItem list" where
  "attWorst5 attAll = take 5 attAll"

definition attBest5 :: "AttItem list \<Rightarrow> AttItem list" where
  "attBest5 attAll =
     (if length attAll = 0 then [] else rev (drop (length attAll - 5) attAll))"

text \<open>
  The per-row pass of \<open>doQuery\<close> over the normalized rows: a row that already has a
  summary keeps it; any other row gets one, computed over the date columns on a
  schedule page that is not the hours page, and zero over zero otherwise.
\<close>

definition doQueryStep ::
  "ustring list \<Rightarrow> GasRecordRow \<Rightarrow> nat \<times> nat \<Rightarrow> int \<Rightarrow> nat \<times> nat" where
  "doQueryStep hs row acc ci =
     (case jsIndex hs ci of
        None \<Rightarrow> acc
      | Some hk \<Rightarrow>
          if hk = [] \<or> trim hk = [] then acc
          else let cellValue = props row hk
               in if \<not> isShouldAttendCell cellValue buildExcludeForAttRateSet then acc
                  else (fst acc + 1,
                        if isActualAttendCell ci row cellValue buildExcludeFromAbsSet
                        then snd acc + 1 else snd acc))"

definition doQueryAnnotate ::
  "bool \<Rightarrow> bool \<Rightarrow> ustring list \<Rightarrow> int list \<Rightarrow> GasRecordRow \<Rightarrow> GasRecordRow" where
  "doQueryAnnotate isHoursPage isSchedulePage hs cols row =
     (if u_attendance row \<noteq> None then row
      else let days = (if \<not> isHoursPage \<and> isSchedulePage \<and> length cols \<noteq> 0
                       then foldl (doQueryStep hs row) (0, 0) cols else (0, 0));
               exp_n = fst days;
               att_n = snd days;
               r = (if exp_n > 0 then real att_n / real exp_n else 0)
           in row\<lparr>u_attendance := Some (mkSummary att_n exp_n r), u_attendanceRate := Some r\<rparr>)"

definition doQueryRows :: "(nat \<Rightarrow> bool) \<Rightarrow> GasPayload \<Rightarrow> ustring \<Rightarrow> bool \<Rightarrow> GasRecordRow list" where
  "doQueryRows cf payload page isHoursPage =
     (let cols = effectiveDateCols payload;
          norm = gasPayloadToRows cf payload
                   \<lparr>disableAttendance = isHoursPage, sheetName = page, excludeForAttRate = []\<rparr>;
          isSchedulePage = includesStr page [29677, 34920]
      in map (doQueryAnnotate isHoursPage isSchedulePage (fst norm) cols) (snd norm))"

text \<open>
  The invariant C6 asks of a summary: the rate is attended over expected when
  expected is positive and zero otherwise, attended is at most expected, and the rate
  lies between zero and one.
\<close>

definition summaryWellFormed :: "AttendanceSummary \<Rightarrow> bool" where
  "summaryWellFormed s \<longleftrightarrow>
     rate s = (if expected s > 0 then real (attended s) / real (expected s) else 0)
     \<and> attended s \<le> expected s \<and> 0 \<le> rate s \<and> rate s \<le> 1"

text \<open>
  The relation C5 asks between the status and the rate of a summary: normal exactly
  when the rate is at least 0.90, low exactly when it is at least 0.75 and below
  0.90, abnormal exactly when it is below 0.75.
\<close>

definition statusMatchesRate :: "AttendanceSummary \<Rightarrow> bool" where
  "statusMatchesRate s \<longleftrightarrow>
     (status s = normal \<longleftrightarrow> rate s \<ge> 9 / 10)
     \<and> (status s = low \<longleftrightarrow> 3 / 4 \<le> rate s \<and> rate s < 9 / 10)
     \<and> (status s = abnormal \<longleftrightarrow> rate s < 3 / 4)"

text \<open>
  The date sets of C2 (amended).  The cell of a (row, date column) pair is what the
  source reads for it, \<open>row[hk]\<close>: the value that the normalized row holds under the
  header label \<open>hk\<close> of the column.  The sets are the identities of the date
  columns, with a non-blank header, at which that value, for some row of the person,
  passes the should-attend test, and those at which it passes the actual-attend test
  as well (the flag of the actual-attend test is read at the column index).
\<close>

definition shouldDates ::
  "ustring list \<Rightarrow> ustring list \<Rightarrow> int list \<Rightarrow> GasRecordRow list \<Rightarrow> ustring set" where
  "shouldDates hs hsISO cols personRows =
     {dateIdentity hsISO hk ci | row ci hk.
        row \<in> set personRows \<and> ci \<in> set cols \<and> jsIndex hs ci = Some hk \<and> trim hk \<noteq> []
        \<and> isShouldAttendCell (props row hk) buildExcludeForAttRateSet}"

definition attendedDates ::
  "ustring list \<Rightarrow> ustring list \<Rightarrow> int list \<Rightarrow> GasRecordRow list \<Rightarrow> ustring set" where
  "attendedDates hs hsISO cols personRows =
     {dateIdentity hsISO hk ci | row ci hk.
        row \<in> set personRows \<and> ci \<in> set cols \<and> jsIndex hs ci = Some hk \<and> trim hk \<noteq> []
        \<and> isShouldAttendCell (props row hk) buildExcludeForAttRateSet
        \<and> isActualAttendCell ci row (props row hk) buildExcludeFromAbsSet}"

section \<open>Request cache\<close>

text \<open>
  \<open>gasQuerySheet\<close> with its two module-level maps.  The function is asynchronous; on
  the single event loop it runs in two uninterrupted steps, which the model keeps
  apart: the call, up to the registration of the pending request
  (\<open>gasQuerySheet_call\<close>), and the settlement of that request, from the moment its
  promise settles to the \<open>finally\<close> block (\<open>gasQuerySheet_settle\<close>).  Time is
  what \<open>Date.now()\<close> returns, in milliseconds, a parameter of each step.  A promise
  is known by a number; \<open>nextPromise\<close> is the next unused one.
\<close>

record CacheEntry =
  ts :: int
  entry_value :: GasPayload

record QueryState =
  QUERY_CACHE :: "ustring \<rightharpoonup> CacheEntry"
  QUERY_INFLIGHT :: "ustring \<rightharpoonup> nat"
  nextPromise :: nat

definition QUERY_CACHE_MS :: int where
  "QUERY_CACHE_MS = 2 * 60000"

text \<open>
  \<open>getBaseUrl\<close>: the configured endpoint with all white space removed, or \<open>null\<close>
  when nothing is left.
\<close>

definition getBaseUrl :: "ustring option \<Rightarrow> ustring option" where
  "getBaseUrl env =
     (let s = trim (filter (\<lambda>c. \<not> isWhiteSpace c) (strOf env))
      in if s = [] then None else Some s)"

text \<open>The cache key: base, warehouse, sheet and trimmed name, joined by a bar.\<close>

definition queryKey :: "ustring \<Rightarrow> ustring \<Rightarrow> ustring \<Rightarrow> ustring option \<Rightarrow> ustring" where
  "queryKey base warehouse sheet name =
     base @ [124] @ warehouse @ [124] @ sheet @ [124] @ trim (strOf name)"

text \<open>
  What the call does before it first suspends: it throws when the endpoint is not
  configured, returns the cached payload, returns the pending promise of the key, or
  starts a request and registers its promise in flight.  The request begins with
  \<open>toUrl\<close>, whose \<open>new URL(base)\<close> throws when the base is not an absolute URL; the
  throw happens inside the asynchronous function of the request, before \<open>fetch\<close> is
  reached, so the promise that is registered in flight is then already rejected and
  no fetch is issued (\<open>UrlRejected\<close>); otherwise the fetch is issued (\<open>IssuedFetch\<close>).
  Which strings \<open>new URL\<close> accepts is decided by the JavaScript engine, not by the
  repository: it is the parameter \<open>newURL\<close>.
\<close>

datatype callOutcome =
    NotConfigured
  | CacheHit GasPayload
  | JoinedInflight nat
  | IssuedFetch nat
  | UrlRejected nat

definition gasQuerySheet_call ::
  "(ustring \<Rightarrow> bool) \<Rightarrow> ustring option \<Rightarrow> int \<Rightarrow> ustring \<Rightarrow> ustring \<Rightarrow> ustring option
     \<Rightarrow> QueryState \<Rightarrow> callOutcome \<times> QueryState" where
  "gasQuerySheet_call newURL env now warehouse sheet name st =
     (case getBaseUrl env of
        None \<Rightarrow> (NotConfigured, st)
      | Some base \<Rightarrow>
          let ck = queryKey base warehouse sheet name
          in case (case QUERY_CACHE st ck of
                     Some hit \<Rightarrow> if now - ts hit < QUERY_CACHE_MS then Some (entry_value hit) else None
                   | None \<Rightarrow> None) of
               Some v \<Rightarrow> (CacheHit v, st)
             | None \<Rightarrow>
                 (case QUERY_INFLIGHT st ck of
                    Some p \<Rightarrow> (JoinedInflight p, st)
                  | None \<Rightarrow>
                      (if newURL base then IssuedFetch (nextPromise st)
                       else UrlRejected (nextPromise st),
                       st\<lparr>QUERY_INFLIGHT := (QUERY_INFLIGHT st)(ck \<mapsto> nextPromise st),
                          nextPromise := nextPromise st + 1\<rparr>)))"

text \<open>
  How the request ends: \<open>toUrl\<close> threw (no fetch was made), or \<open>fetchJsonNoStore\<close>
  threw (network failure or a status that is not ok), or it yielded the parsed
  payload, whose \<open>error\<close> field, when truthy, makes \<open>gasQuerySheet\<close> throw in turn.
  The settlement stores a good payload in the cache with the current time, and
  deletes the in-flight entry of the key in every case.
\<close>

datatype requestResult = UrlThrew ustring | FetchThrew ustring | FetchedJson GasPayload

datatype queryError = UrlError ustring | TransportError ustring | PayloadError ustring

definition gasQuerySheet_settle ::
  "int \<Rightarrow> ustring \<Rightarrow> requestResult \<Rightarrow> QueryState \<Rightarrow> (queryError + GasPayload) \<times> QueryState" where
  "gasQuerySheet_settle now ck res st =
     (let done = st\<lparr>QUERY_INFLIGHT := (QUERY_INFLIGHT st)(ck := None)\<rparr>
      in case res of
           UrlThrew msg \<Rightarrow> (Inl (UrlError msg), done)
         | FetchThrew msg \<Rightarrow> (Inl (TransportError msg), done)
         | FetchedJson json \<Rightarrow>
             (case error json of
                Some msg \<Rightarrow>
                  if msg \<noteq> [] then (Inl (PayloadError msg), done)
                  else (Inr json,
                        done\<lparr>QUERY_CACHE := (QUERY_CACHE st)(ck \<mapsto> \<lparr>ts = now, entry_value = json\<rparr>)\<rparr>)
              | None \<Rightarrow>
                  (Inr json,
                   done\<lparr>QUERY_CACHE := (QUERY_CACHE st)(ck \<mapsto> \<lparr>ts = now, entry_value = json\<rparr>)\<rparr>)))"

section \<open>Sample sheets\<close>

text \<open>
  Concrete inputs for the closed statements below.  The sample sheet has the name
  column and one date column 1/1 and three rows: A with cell 9 and flags 0, 1, twice,
  and B with the day-off cell U+4F11 and no flags.  The blank-header sheet has one row
  A and a date column whose header is a single space.  \<open>recordRow\<close> is the shape of
  a normalized row of such a two-column sheet, and \<open>emptyQueryState\<close> the state of
  the request cache when the page is loaded.  The repeated-label sheet has two date
  columns, both labelled d, with the ISO headers 2024-01-01 and 2024-01-02, and one
  row A whose cells there are U+4F11 and 9.  The sample endpoint is \<open>http://h\<close>, and
  the sample key that of warehouse W, sheet S and no name at that endpoint.
\<close>

abbreviation plainRow :: "ustring list \<Rightarrow> int list option \<Rightarrow> GasRow" where
  "plainRow cells att \<equiv> \<lparr>row_v = cells, row_bg = None, row_fc = None, row_att = att\<rparr>"

abbreviation attendanceOff :: "ustring \<Rightarrow> GasTransformOptions" where
  "attendanceOff source \<equiv> \<lparr>disableAttendance = True, sheetName = source, excludeForAttRate = []\<rparr>"

abbreviation attendanceOn :: "ustring \<Rightarrow> GasTransformOptions" where
  "attendanceOn page \<equiv> \<lparr>disableAttendance = False, sheetName = page, excludeForAttRate = []\<rparr>"

abbreviation sampleSheet :: GasPayload where
  "sampleSheet \<equiv>
     \<lparr>headers = [[22995, 21517], [49, 47, 49]], headersISO = None,
      rows = [plainRow [[65], [57]] (Some [0, 1]), plainRow [[65], [57]] (Some [0, 1]),
              plainRow [[66], [20241]] None],
      dateCols = Some [1], error = None\<rparr>"

abbreviation blankHeaderSheet :: GasPayload where
  "blankHeaderSheet \<equiv>
     \<lparr>headers = [[22995, 21517], [32]], headersISO = None,
      rows = [plainRow [[65], [57]] (Some [0, 1])],
      dateCols = Some [1], error = None\<rparr>"

abbreviation recordRow :: "ustring \<Rightarrow> ustring \<Rightarrow> ustring \<Rightarrow> ustring \<Rightarrow> int list option \<Rightarrow> GasRecordRow" where
  "recordRow rid h a b att \<equiv>
     \<lparr>row_id = rid, props = [h \<mapsto> b, [22995, 21517] \<mapsto> a],
      u_bg = None, u_fc = None, u_att = att, u_attendance = None, u_attendanceRate = None\<rparr>"

abbreviation emptyQueryState :: QueryState where
  "emptyQueryState \<equiv> \<lparr>QUERY_CACHE = Map.empty, QUERY_INFLIGHT = Map.empty, nextPromise = 0\<rparr>"

abbreviation repeatedLabelSheet :: GasPayload where
  "repeatedLabelSheet \<equiv>
     \<lparr>headers = [[22995, 21517], [100], [100]],
      headersISO = Some [[], [50, 48, 50, 52, 45, 48, 49, 45, 48, 49],
                         [50, 48, 50, 52, 45, 48, 49, 45, 48, 50]],
      rows = [plainRow [[65], [20241], [57]] None],
      dateCols = Some [1, 2], error = None\<rparr>"

abbreviation sampleBase :: ustring where
  "sampleBase \<equiv> [104, 116, 116, 112, 58, 47, 47, 104]"

abbreviation sampleKey :: ustring where
  "sampleKey \<equiv> [104, 116, 116, 112, 58, 47, 47, 104, 124, 87, 124, 83, 124]"

text \<open>
  A stand-in for the engine's URL parser where a concrete one is needed: it accepts
  \<open>http://\<close> followed by one or more lowercase ASCII letters, strings that every
  URL parser accepts as absolute URLs, and nothing else.  It is applied below to the
  sample endpoint, which it accepts, and to the string \<open>u\<close>, which has no scheme and
  which \<open>new URL\<close> rejects as well.
\<close>

definition sampleUrlParser :: "ustring \<Rightarrow> bool" where
  "sampleUrlParser b \<longleftrightarrow>
     take 7 b = [104, 116, 116, 112, 58, 47, 47] \<and> drop 7 b \<noteq> []
     \<and> list_all (\<lambda>c. 97 \<le> c \<and> c \<le> 122) (drop 7 b)"

section \<open>Properties of the strings\<close>

lemma dropWhile_fix: "xs = [] \<or> \<not> P (hd xs) \<Longrightarrow> dropWhile P xs = xs"
  by (cases xs) auto

lemma hd_rev_dropWhile_rev:
  "ys = [] \<or> \<not> P (hd ys) \<Longrightarrow>
   rev (dropWhile P (rev ys)) = [] \<or> \<not> P (hd (rev (dropWhile P (rev ys))))"
  by (cases ys) (auto simp: dropWhile_append)

lemma trim_idem_gen:
  "rev (dropWhile P (rev (dropWhile P (rev (dropWhile P (rev (dropWhile P s))))))) =
   rev (dropWhile P (rev (dropWhile P s)))"
proof -
  let ?ys = "dropWhile P s"
  let ?zs = "rev (dropWhile P (rev ?ys))"
  have "?ys = [] \<or> \<not> P (hd ?ys)" by (metis hd_dropWhile)
  then have "?zs = [] \<or> \<not> P (hd ?zs)" by (rule hd_rev_dropWhile_rev)
  then have "dropWhile P ?zs = ?zs" by (rule dropWhile_fix)
  then show ?thesis by simp
qed

lemma trim_trim [simp]: "trim (trim s) = trim s"
  unfolding trim_def by (rule trim_idem_gen)

lemma tokenizeCell_trimmed: "tokenizeCell (Some (trim (strOf raw))) = tokenizeCell raw"
  by (simp add: tokenizeCell_def strOf_def)

lemma tokenizeCell_empty: "trim (strOf raw) = [] \<Longrightarrow> tokenizeCell raw = []"
  by (simp add: tokenizeCell_def)

lemma includesStr_iff: "includesStr s pat \<longleftrightarrow> (\<exists>a b. s = a @ pat @ b)"
proof (induction s)
  case Nil
  then show ?case by auto
next
  case (Cons c cs)
  have "take (length pat) (c # cs) = pat \<longleftrightarrow> (\<exists>b. c # cs = pat @ b)"
    by (metis append_eq_conv_conj append_take_drop_id)
  moreover have "(\<exists>a b. c # cs = a @ pat @ b) \<longleftrightarrow>
      (\<exists>b. c # cs = pat @ b) \<or> (\<exists>a b. cs = a @ pat @ b)"
  proof
    assume "\<exists>a b. c # cs = a @ pat @ b"
    then obtain a b where ab: "c # cs = a @ pat @ b" by blast
    show "(\<exists>b. c # cs = pat @ b) \<or> (\<exists>a b. cs = a @ pat @ b)"
    proof (cases a)
      case Nil
      with ab show ?thesis by auto
    next
      case (Cons x xs)
      with ab have "cs = xs @ pat @ b" by simp
      then show ?thesis by blast
    qed
  next
    assume "(\<exists>b. c # cs = pat @ b) \<or> (\<exists>a b. cs = a @ pat @ b)"
    then show "\<exists>a b. c # cs = a @ pat @ b"
    proof
      assume "\<exists>b. c # cs = pat @ b"
      then obtain b where "c # cs = [] @ pat @ b" by auto
      then show ?thesis by blast
    next
      assume "\<exists>a b. cs = a @ pat @ b"
      then obtain a b where "c # cs = (c # a) @ pat @ b" by auto
      then show ?thesis by blast
    qed
  qed
  ultimately show ?case using Cons.IH by simp
qed

lemma dropWhile_keeps_infix:
  "\<not> P x \<Longrightarrow> \<exists>a'. dropWhile P (a @ x # c) = a' @ x # c"
  by (induction a) auto

lemma trim_decompose: "\<exists>pre post. s = pre @ trim s @ post"
proof -
  let ?d = "dropWhile isWhiteSpace s"
  have "rev ?d = takeWhile isWhiteSpace (rev ?d) @ dropWhile isWhiteSpace (rev ?d)"
    by simp
  then have "rev (rev ?d) = rev (takeWhile isWhiteSpace (rev ?d) @ dropWhile isWhiteSpace (rev ?d))"
    by (rule arg_cong)
  then have "?d = trim s @ rev (takeWhile isWhiteSpace (rev ?d))"
    by (simp only: trim_def rev_rev_ident rev_append)
  moreover have "s = takeWhile isWhiteSpace s @ ?d" by simp
  ultimately show ?thesis by metis
qed

lemma trim_keeps_infix:
  assumes "\<not> isWhiteSpace x" "\<not> isWhiteSpace y"
  shows "\<exists>a' b'. trim (a @ [x, y] @ b) = a' @ [x, y] @ b'"
proof -
  obtain a' where a': "dropWhile isWhiteSpace (a @ x # y # b) = a' @ x # y # b"
    using dropWhile_keeps_infix [of isWhiteSpace x a "y # b"] assms(1) by blast
  have "rev (a' @ x # y # b) = (rev b) @ y # (x # rev a')" by simp
  then obtain b' where "dropWhile isWhiteSpace (rev (a' @ x # y # b)) = b' @ y # (x # rev a')"
    using dropWhile_keeps_infix [of isWhiteSpace y "rev b" "x # rev a'"] assms(2) by auto
  then have "trim (a @ [x, y] @ b) = a' @ [x, y] @ rev b'"
    by (simp add: trim_def a')
  then show ?thesis by blast
qed

lemma includesStr_trim_marker:
  "includesStr (trim s) [29677, 34920] = includesStr s [29677, 34920]"
proof
  assume "includesStr (trim s) [29677, 34920]"
  then obtain a b where "trim s = a @ [29677, 34920] @ b"
    unfolding includesStr_iff by blast
  moreover obtain pre post where "s = pre @ trim s @ post"
    using trim_decompose by blast
  ultimately have "s = (pre @ a) @ [29677, 34920] @ (b @ post)" by simp
  then show "includesStr s [29677, 34920]"
    unfolding includesStr_iff by blast
next
  assume "includesStr s [29677, 34920]"
  then obtain a b where s: "s = a @ [29677, 34920] @ b"
    unfolding includesStr_iff by blast
  have "\<not> isWhiteSpace 29677" "\<not> isWhiteSpace 34920"
    by (simp_all add: isWhiteSpace_def)
  then show "includesStr (trim s) [29677, 34920]"
    unfolding includesStr_iff s by (rule trim_keeps_infix)
qed

lemmas string_defs = strOf_def trim_def isWhiteSpace_def isSeparator_def

section \<open>The per-cell tests\<close>

lemma should_iff:
  "isShouldAttendCell raw exclude \<longleftrightarrow> (\<forall>t\<in>set (tokenizeCell raw). t \<notin> exclude)"
  by (auto simp: isShouldAttendCell_def Let_def tokenizeCell_trimmed tokenizeCell_empty list_ex_iff)

text \<open>
  C1 (amended): the should-attend test returns true when the trimmed cell text is
  empty, and for a non-empty cell it returns true exactly when none of its tokens is
  in the exclusion set; the cell U+4F11 is not should-attend, and the cell made of
  U+4F11, a slash and U+52A0 U+73ED is not should-attend either, under the page's
  set and under the normalizer's set with any additions.
\<close>

theorem C1_should_attend_amended:
  "(trim (strOf raw) = [] \<longrightarrow> isShouldAttendCell raw exclude)
   \<and> (trim (strOf raw) \<noteq> [] \<longrightarrow>
        (isShouldAttendCell raw exclude \<longleftrightarrow> (\<forall>t\<in>set (tokenizeCell raw). t \<notin> exclude)))
   \<and> \<not> isShouldAttendCell (Some [20241]) buildExcludeForAttRateSet
   \<and> \<not> isShouldAttendCell (Some [20241]) (buildExcludeSet extra)
   \<and> \<not> isShouldAttendCell (Some [20241, 47, 21152, 29677]) buildExcludeForAttRateSet
   \<and> \<not> isShouldAttendCell (Some [20241, 47, 21152, 29677]) (buildExcludeSet extra)"
proof -
  have a: "tokenizeCell (Some [20241]) = [[20241]]"
    by (simp add: tokenizeCell_def string_defs)
  have b: "tokenizeCell (Some [20241, 47, 21152, 29677]) = [[20241], [21152, 29677]]"
    by (simp add: tokenizeCell_def string_defs)
  have c: "[20241] \<in> buildExcludeForAttRateSet" "[20241] \<in> buildExcludeSet extra"
    by (simp_all add: buildExcludeForAttRateSet_def buildExcludeSet_def)
  show ?thesis
    using c by (simp add: should_iff a b tokenizeCell_empty)
qed

text \<open>
  The amended statement at the cell U+52A0 U+73ED (no token excluded) and at a
  cell of two spaces.
\<close>

theorem C1_should_attend_witness:
  "trim (strOf (Some [21152, 29677])) \<noteq> []
   \<and> tokenizeCell (Some [21152, 29677]) = [[21152, 29677]]
   \<and> [21152, 29677] \<notin> buildExcludeForAttRateSet
   \<and> isShouldAttendCell (Some [21152, 29677]) buildExcludeForAttRateSet
   \<and> trim (strOf (Some [32, 32])) = []
   \<and> isShouldAttendCell (Some [32, 32]) buildExcludeForAttRateSet"
  using C1_should_attend_amended [of "Some [21152, 29677]" buildExcludeForAttRateSet]
    C1_should_attend_amended [of "Some [32, 32]" buildExcludeForAttRateSet]
  by (simp add: tokenizeCell_def string_defs buildExcludeForAttRateSet_def)

text \<open>
  C1 as stated fails: the cell of U+4F11, a slash and U+52A0 U+73ED is not empty and
  its second token is in neither default exclusion set, yet the test returns false,
  since its first token is excluded.
\<close>

theorem C1_should_attend_counterexample:
  "trim (strOf (Some [20241, 47, 21152, 29677])) \<noteq> []
  \<and> tokenizeCell (Some [20241, 47, 21152, 29677]) = [[20241], [21152, 29677]]
  \<and> [21152, 29677] \<notin> buildExcludeForAttRateSet
  \<and> [21152, 29677] \<notin> buildExcludeSet []
  \<and> \<not> isShouldAttendCell (Some [20241, 47, 21152, 29677]) buildExcludeForAttRateSet
  \<and> \<not> isShouldAttendCell (Some [20241, 47, 21152, 29677]) (buildExcludeSet [])"
  by (simp add: isShouldAttendCell_def tokenizeCell_def string_defs
      buildExcludeForAttRateSet_def buildExcludeSet_def)




text \<open>
  C3: the actual-attend test returns true exactly when the auto-attend test passes,
  or the row's att array is present, non-empty and holds a non-zero flag at the
  column index; without an att array the result is that of the auto-attend test.
  The cell 9:00-18:00 is not auto-attend; it is attended with att[1] = 1 and not
  attended with att[1] = 0 or with no att array.
\<close>

theorem C3_actual_attend:
  "(isActualAttendCell colIndex row cellValue excludeAbs \<longleftrightarrow>
      isAutoAttendCell cellValue excludeAbs
      \<or> (\<exists>att. u_att row = Some att \<and> att \<noteq> [] \<and> 0 \<le> colIndex \<and> colIndex < int (length att)
                \<and> att ! nat colIndex \<noteq> 0))
   \<and> (u_att row = None \<longrightarrow>
        isActualAttendCell colIndex row cellValue excludeAbs = isAutoAttendCell cellValue excludeAbs)
   \<and> \<not> isAutoAttendCell (Some [57, 58, 48, 48, 45, 49, 56, 58, 48, 48]) buildExcludeFromAbsSet
   \<and> isActualAttendCell 1 (row\<lparr>u_att := Some [0, 1]\<rparr>)
        (Some [57, 58, 48, 48, 45, 49, 56, 58, 48, 48]) buildExcludeFromAbsSet
   \<and> \<not> isActualAttendCell 1 (row\<lparr>u_att := Some [0, 0]\<rparr>)
        (Some [57, 58, 48, 48, 45, 49, 56, 58, 48, 48]) buildExcludeFromAbsSet
   \<and> \<not> isActualAttendCell 1 (row\<lparr>u_att := None\<rparr>)
        (Some [57, 58, 48, 48, 45, 49, 56, 58, 48, 48]) buildExcludeFromAbsSet"
proof -
  have gen: "isActualAttendCell c r v ex \<longleftrightarrow>
      isAutoAttendCell v ex
      \<or> (\<exists>att. u_att r = Some att \<and> att \<noteq> [] \<and> 0 \<le> c \<and> c < int (length att)
                \<and> att ! nat c \<noteq> 0)" for c r v ex
    by (auto simp: isActualAttendCell_def jsIndex_def truthyFlag_def split: option.splits)
  have n: "\<not> isAutoAttendCell (Some [57, 58, 48, 48, 45, 49, 56, 58, 48, 48]) buildExcludeFromAbsSet"
    by (simp add: isAutoAttendCell_def tokenizeCell_def string_defs buildExcludeFromAbsSet_def
        ALNUM_RE_def isAsciiAlnum_def)
  show ?thesis
    using n by (simp add: gen)
qed

text \<open>
  C3 at a row without an att array and the cell A1.
\<close>

theorem C3_actual_attend_witness:
  "u_att \<lparr>row_id = [], props = Map.empty, u_bg = None, u_fc = None, u_att = None,
          u_attendance = None, u_attendanceRate = None\<rparr> = None
   \<and> isActualAttendCell 0 \<lparr>row_id = [], props = Map.empty, u_bg = None, u_fc = None, u_att = None,
          u_attendance = None, u_attendanceRate = None\<rparr> (Some [65, 49]) buildExcludeFromAbsSet"
  using C3_actual_attend [of 0 "\<lparr>row_id = [], props = Map.empty, u_bg = None, u_fc = None, u_att = None,
          u_attendance = None, u_attendanceRate = None\<rparr>" "Some [65, 49]" buildExcludeFromAbsSet]
  by (simp add: isAutoAttendCell_def tokenizeCell_def string_defs buildExcludeFromAbsSet_def
        ALNUM_RE_def HAS_CJK_RE_def isAsciiAlnum_def)

section \<open>The normalizer\<close>

lemma isBlankRow_iff:
  "isBlankRow cf hs r \<longleftrightarrow>
     \<not> (\<exists>i<length hs. cleanForBlankCheck cf (jsIndex (row_v r) (int i)) \<noteq> [])"
  by (auto simp: isBlankRow_def list_all_iff)

lemma gasPayloadToRows_rows:
  "snd (gasPayloadToRows cf payload options) =
     map (\<lambda>(idx, r). toRecordRow payload options (headers payload)
                        (findNameIndex (headers payload)) idx r)
       (zip [0..<length (filter (\<lambda>r. \<not> isBlankRow cf (headers payload) r) (rows payload))]
            (filter (\<lambda>r. \<not> isBlankRow cf (headers payload) r) (rows payload)))"
  by (simp add: gasPayloadToRows_def Let_def)

text \<open>
  C7 (amended): the normalizer emits, in order, one row for each raw row that has,
  at some position below the number of headers, a cell that does not clean to the
  empty string, and no row for any other raw row; cells beyond the last header
  are not looked at.
\<close>

theorem C7_blank_rows_amended:
  "snd (gasPayloadToRows cf payload options) =
     map (\<lambda>(idx, r). toRecordRow payload options (headers payload)
                        (findNameIndex (headers payload)) idx r)
       (zip [0..<length (filter (\<lambda>r. \<exists>i<length (headers payload).
                                   cleanForBlankCheck cf (jsIndex (row_v r) (int i)) \<noteq> [])
                          (rows payload))]
            (filter (\<lambda>r. \<exists>i<length (headers payload).
                           cleanForBlankCheck cf (jsIndex (row_v r) (int i)) \<noteq> [])
               (rows payload)))
   \<and> length (snd (gasPayloadToRows cf payload options)) =
       length (filter (\<lambda>r. \<exists>i<length (headers payload).
                               cleanForBlankCheck cf (jsIndex (row_v r) (int i)) \<noteq> [])
                 (rows payload))"
  by (simp add: gasPayloadToRows_rows isBlankRow_iff)

lemma cleanForBlankCheck_samples:
  "cleanForBlankCheck cfUnicode14 None = []"
  "cleanForBlankCheck cfUnicode14 (Some []) = []"
  "cleanForBlankCheck cfUnicode14 (Some [120]) = [120]"
  "cleanForBlankCheck cfUnicode14 (Some [32, 8203]) = []"
  "cleanForBlankCheck cfUnicode14 (Some [65]) = [65]"
  "cleanForBlankCheck cfUnicode14 (Some [66]) = [66]"
  by (simp_all add: cleanForBlankCheck_def cfUnicode14_def isInvisible_def string_defs)

lemma isBlankRow_one:
  "isBlankRow cf [h] r = (cleanForBlankCheck cf (jsIndex (row_v r) 0) = [])"
  by (simp add: isBlankRow_def)

lemma isBlankRow_two:
  "isBlankRow cf [h0, h1] r =
     (cleanForBlankCheck cf (jsIndex (row_v r) 0) = [] \<and> cleanForBlankCheck cf (jsIndex (row_v r) 1) = [])"
  by (simp add: isBlankRow_def)

lemma row_id_toRecordRow:
  "row_id (toRecordRow payload options hs nameIdx idx r) = [103, 97, 115, 95] @ natToString idx"
  by (simp add: toRecordRow_def Let_def split: option.splits)

text \<open>
  C7 as stated fails: with one header, the raw row whose cells are the empty string
  and x has a cell that does not clean to the empty string, and it is dropped.
\<close>

theorem C7_blank_rows_counterexample:
  "cleanForBlankCheck cfUnicode14 (Some [120]) \<noteq> []
   \<and> snd (gasPayloadToRows cfUnicode14
        \<lparr>headers = [[65]], headersISO = None,
         rows = [\<lparr>row_v = [[], [120]], row_bg = None, row_fc = None, row_att = None\<rparr>],
         dateCols = None, error = None\<rparr>
        \<lparr>disableAttendance = True, sheetName = [], excludeForAttRate = []\<rparr>) = []"
  by (simp add: gasPayloadToRows_def isBlankRow_one jsIndex_def cleanForBlankCheck_samples)

text \<open>
  The amended statement on two raw rows under one header: the first (a space and a
  zero-width space) is dropped, the second (x) is emitted as gas_0.
\<close>

theorem C7_blank_rows_witness:
  "map row_id (snd (gasPayloadToRows cfUnicode14
        \<lparr>headers = [[65]], headersISO = None,
         rows = [\<lparr>row_v = [[32, 8203]], row_bg = None, row_fc = None, row_att = None\<rparr>,
                 \<lparr>row_v = [[120]], row_bg = None, row_fc = None, row_att = None\<rparr>],
         dateCols = None, error = None\<rparr>
        \<lparr>disableAttendance = True, sheetName = [], excludeForAttRate = []\<rparr>))
     = [[103, 97, 115, 95, 48]]"
  using C7_blank_rows_amended [of cfUnicode14 "\<lparr>headers = [[65]], headersISO = None,
         rows = [\<lparr>row_v = [[32, 8203]], row_bg = None, row_fc = None, row_att = None\<rparr>,
                 \<lparr>row_v = [[120]], row_bg = None, row_fc = None, row_att = None\<rparr>],
         dateCols = None, error = None\<rparr>" "\<lparr>disableAttendance = True, sheetName = [], excludeForAttRate = []\<rparr>"]
  by (simp add: gasPayloadToRows_def isBlankRow_one jsIndex_def cleanForBlankCheck_samples
      row_id_toRecordRow natToString.simps)

lemma toRecordRow_attendance:
  "u_attendance (toRecordRow payload options hs nameIdx idx r) =
     (if disableAttendance options then None else calcAttendance hs (dateCols payload) r options)"
  "u_attendanceRate (toRecordRow payload options hs nameIdx idx r) =
     map_option rate (u_attendance (toRecordRow payload options hs nameIdx idx r))"
  "u_att (toRecordRow payload options hs nameIdx idx r) = row_att r"
  by (auto simp: toRecordRow_def Let_def split: option.splits)

lemma calcAttendance_Some_iff:
  "calcAttendance hs dcols r options \<noteq> None \<longleftrightarrow>
     includesStr (trim (sheetName options)) [29677, 34920]
     \<and> (\<exists>cols. dcols = Some cols \<and> cols \<noteq> []) \<and> hs \<noteq> []
     \<and> (\<exists>att. row_att r = Some att \<and> att \<noteq> [])"
  by (auto simp: calcAttendance_def Let_def split: option.splits)

lemma emitted_row:
  assumes "row \<in> set (snd (gasPayloadToRows cf payload options))"
  obtains idx r where "r \<in> set (rows payload)" "\<not> isBlankRow cf (headers payload) r"
    "row = toRecordRow payload options (headers payload) (findNameIndex (headers payload)) idx r"
proof -
  from assms obtain idx r where
    "(idx, r) \<in> set (zip [0..<length (filter (\<lambda>r. \<not> isBlankRow cf (headers payload) r) (rows payload))]
            (filter (\<lambda>r. \<not> isBlankRow cf (headers payload) r) (rows payload)))"
    "row = toRecordRow payload options (headers payload) (findNameIndex (headers payload)) idx r"
    unfolding gasPayloadToRows_rows by auto
  moreover then have "r \<in> set (filter (\<lambda>r. \<not> isBlankRow cf (headers payload) r) (rows payload))"
    by (meson set_zip_rightD)
  ultimately show ?thesis using that by auto
qed

lemma not_blank_headers: "\<not> isBlankRow cf hs r \<Longrightarrow> hs \<noteq> []"
  by (auto simp: isBlankRow_def)

text \<open>
  C8 (amended): when attendance is not disabled and the sheet name contains the
  schedule marker, a row emitted by the normalizer has _attendance populated
  exactly when the payload lists at least one date column and the row carries a
  non-empty att array; _attendanceRate is populated exactly when _attendance is,
  with the summary's rate.
\<close>

theorem C8_attendance_populated_amended:
  assumes "\<not> disableAttendance options"
    and "includesStr (sheetName options) [29677, 34920]"
    and "row \<in> set (snd (gasPayloadToRows cf payload options))"
  shows "(u_attendance row \<noteq> None \<longleftrightarrow>
            (\<exists>cols. dateCols payload = Some cols \<and> cols \<noteq> [])
            \<and> (\<exists>att. u_att row = Some att \<and> att \<noteq> []))
         \<and> (u_attendanceRate row \<noteq> None \<longleftrightarrow> u_attendance row \<noteq> None)
         \<and> u_attendanceRate row = map_option rate (u_attendance row)"
proof -
  from assms(3) obtain idx r where r: "\<not> isBlankRow cf (headers payload) r"
    "row = toRecordRow payload options (headers payload) (findNameIndex (headers payload)) idx r"
    by (rule emitted_row)
  have "headers payload \<noteq> []" using r(1) by (rule not_blank_headers)
  moreover have "includesStr (trim (sheetName options)) [29677, 34920]"
    using assms(2) by (simp only: includesStr_trim_marker)
  ultimately show ?thesis
    using assms(1) calcAttendance_Some_iff [of "headers payload" "dateCols payload" r options]
    by (simp add: r(2) toRecordRow_attendance)
qed

section \<open>The aggregator\<close>

lemma trim_Nil [simp]: "trim [] = []"
  by (simp add: trim_def)

lemma set_setAdd [simp]: "set (setAdd x xs) = insert x (set xs)"
  by (auto simp: setAdd_def)

lemma distinct_setAdd [simp]: "distinct (setAdd x xs) = distinct xs"
  by (auto simp: setAdd_def)

lemma shouldDates_mem:
  "x \<in> shouldDates hs hsISO cols prs \<longleftrightarrow>
     (\<exists>row\<in>set prs. \<exists>ci\<in>set cols. \<exists>hk. jsIndex hs ci = Some hk \<and> trim hk \<noteq> []
        \<and> isShouldAttendCell (props row hk) buildExcludeForAttRateSet
        \<and> x = dateIdentity hsISO hk ci)"
  unfolding shouldDates_def by blast

lemma attendedDates_mem:
  "x \<in> attendedDates hs hsISO cols prs \<longleftrightarrow>
     (\<exists>row\<in>set prs. \<exists>ci\<in>set cols. \<exists>hk. jsIndex hs ci = Some hk \<and> trim hk \<noteq> []
        \<and> isShouldAttendCell (props row hk) buildExcludeForAttRateSet
        \<and> isActualAttendCell ci row (props row hk) buildExcludeFromAbsSet
        \<and> x = dateIdentity hsISO hk ci)"
  unfolding attendedDates_def by blast

lemma worstStep_should:
  "set (fst (worstStep hs hsISO row acc ci)) =
     set (fst acc) \<union> shouldDates hs hsISO [ci] [row]"
  by (rule set_eqI) (auto simp: worstStep_def shouldDates_mem Let_def split: option.splits)

lemma worstStep_attended:
  "set (snd (worstStep hs hsISO row acc ci)) =
     set (snd acc) \<union> attendedDates hs hsISO [ci] [row]"
  by (rule set_eqI) (auto simp: worstStep_def attendedDates_mem Let_def split: option.splits)

lemma worstStep_distinct:
  "distinct (fst (worstStep hs hsISO row acc ci)) = distinct (fst acc)"
  "distinct (snd (worstStep hs hsISO row acc ci)) = distinct (snd acc)"
  by (auto simp: worstStep_def Let_def split: option.splits)

lemma shouldDates_Cons_col:
  "shouldDates hs hsISO (ci # cols) prs = shouldDates hs hsISO [ci] prs \<union> shouldDates hs hsISO cols prs"
  by (rule set_eqI) (simp add: shouldDates_mem, blast)

lemma attendedDates_Cons_col:
  "attendedDates hs hsISO (ci # cols) prs = attendedDates hs hsISO [ci] prs \<union> attendedDates hs hsISO cols prs"
  by (rule set_eqI) (simp add: attendedDates_mem, blast)

lemma shouldDates_Cons_row:
  "shouldDates hs hsISO cols (r # prs) = shouldDates hs hsISO cols [r] \<union> shouldDates hs hsISO cols prs"
  by (rule set_eqI) (simp add: shouldDates_mem)

lemma attendedDates_Cons_row:
  "attendedDates hs hsISO cols (r # prs) = attendedDates hs hsISO cols [r] \<union> attendedDates hs hsISO cols prs"
  by (rule set_eqI) (simp add: attendedDates_mem)

lemma dates_Nil [simp]:
  "shouldDates hs hsISO [] prs = {}" "shouldDates hs hsISO cols [] = {}"
  "attendedDates hs hsISO [] prs = {}" "attendedDates hs hsISO cols [] = {}"
  by (auto simp: shouldDates_mem attendedDates_mem)

lemma attendedDates_subset: "attendedDates hs hsISO cols prs \<subseteq> shouldDates hs hsISO cols prs"
  by (rule subsetI) (simp add: shouldDates_mem attendedDates_mem, blast)

lemma finite_shouldDates [simp]: "finite (shouldDates hs hsISO cols prs)"
proof -
  have "shouldDates hs hsISO cols prs \<subseteq>
        (\<lambda>ci. dateIdentity hsISO (the (jsIndex hs ci)) ci) ` set cols"
    by (rule subsetI) (simp add: shouldDates_mem, force)
  then show ?thesis by (rule finite_subset) simp
qed

lemma colLoop_sets:
  "set (fst (foldl (worstStep hs hsISO row) acc cols)) =
     set (fst acc) \<union> shouldDates hs hsISO cols [row]"
  "set (snd (foldl (worstStep hs hsISO row) acc cols)) =
     set (snd acc) \<union> attendedDates hs hsISO cols [row]"
proof (induction cols arbitrary: acc)
  case Nil
  { case 1 show ?case by simp }
  { case 2 show ?case by simp }
next
  case (Cons ci cols)
  { case 1 show ?case
      by (simp add: Cons.IH(1) worstStep_should shouldDates_Cons_col [of _ _ ci cols] Un_assoc) }
  { case 2 show ?case
      by (simp add: Cons.IH(2) worstStep_attended attendedDates_Cons_col [of _ _ ci cols] Un_assoc) }
qed

lemma colLoop_distinct:
  "distinct (fst (foldl (worstStep hs hsISO row) acc cols)) = distinct (fst acc)"
  "distinct (snd (foldl (worstStep hs hsISO row) acc cols)) = distinct (snd acc)"
  by (induction cols arbitrary: acc) (simp_all add: worstStep_distinct)

lemma rowLoop_sets:
  "set (fst (foldl (\<lambda>acc row. foldl (worstStep hs hsISO row) acc cols) acc prs)) =
     set (fst acc) \<union> shouldDates hs hsISO cols prs"
  "set (snd (foldl (\<lambda>acc row. foldl (worstStep hs hsISO row) acc cols) acc prs)) =
     set (snd acc) \<union> attendedDates hs hsISO cols prs"
proof (induction prs arbitrary: acc)
  case Nil
  { case 1 show ?case by simp }
  { case 2 show ?case by simp }
next
  case (Cons r prs)
  { case 1 show ?case
      by (simp add: Cons.IH(1) colLoop_sets shouldDates_Cons_row [of _ _ _ r prs] Un_assoc) }
  { case 2 show ?case
      by (simp add: Cons.IH(2) colLoop_sets attendedDates_Cons_row [of _ _ _ r prs] Un_assoc) }
qed

lemma rowLoop_distinct:
  "distinct (fst (foldl (\<lambda>acc row. foldl (worstStep hs hsISO row) acc cols) acc prs)) = distinct (fst acc)"
  "distinct (snd (foldl (\<lambda>acc row. foldl (worstStep hs hsISO row) acc cols) acc prs)) = distinct (snd acc)"
  by (induction prs arbitrary: acc) (simp_all add: colLoop_distinct)

lemma personSets_card:
  "length (fst (personSets hs hsISO cols prs)) = card (shouldDates hs hsISO cols prs)"
  "length (snd (personSets hs hsISO cols prs)) = card (attendedDates hs hsISO cols prs)"
proof -
  have "distinct (fst (personSets hs hsISO cols prs))" "distinct (snd (personSets hs hsISO cols prs))"
    by (simp_all add: personSets_def rowLoop_distinct)
  moreover have "set (fst (personSets hs hsISO cols prs)) = shouldDates hs hsISO cols prs"
    "set (snd (personSets hs hsISO cols prs)) = attendedDates hs hsISO cols prs"
    by (simp_all add: personSets_def rowLoop_sets)
  ultimately show "length (fst (personSets hs hsISO cols prs)) = card (shouldDates hs hsISO cols prs)"
    "length (snd (personSets hs hsISO cols prs)) = card (attendedDates hs hsISO cols prs)"
    by (metis distinct_card)+
qed

lemma personSets_le:
  "length (snd (personSets hs hsISO cols prs)) \<le> length (fst (personSets hs hsISO cols prs))"
  unfolding personSets_card
  by (rule card_mono) (simp_all add: attendedDates_subset)

lemma getNameFromRow_nonempty: "getNameFromRow r \<noteq> []"
  by (simp add: getNameFromRow_def Let_def)

lemma groupByName_alt:
  "groupByName gasRows = foldl (\<lambda>m r. pushByName (getNameFromRow r) r m) [] gasRows"
  by (simp add: groupByName_def Let_def getNameFromRow_nonempty)

lemma pushByName_keys:
  "fst ` set (pushByName nm r m) = insert nm (fst ` set m)"
proof (induction m)
  case Nil
  then show ?case by simp
next
  case (Cons kv m)
  obtain k v where kv: "kv = (k, v)" by (cases kv)
  show ?case
  proof (cases "k = nm")
    case True
    then show ?thesis by (simp add: kv)
  next
    case False
    then show ?thesis by (simp add: kv Cons.IH insert_commute)
  qed
qed

lemma pushByName_distinct:
  "distinct (map fst m) \<Longrightarrow> distinct (map fst (pushByName nm r m))"
proof (induction m)
  case Nil
  then show ?case by simp
next
  case (Cons kv m)
  obtain k v where kv: "kv = (k, v)" by (cases kv)
  show ?case
  proof (cases "k = nm")
    case True
    then show ?thesis using Cons.prems by (simp add: kv)
  next
    case False
    then show ?thesis using Cons by (simp add: kv pushByName_keys)
  qed
qed

lemma option_list_member:
  "it \<in> set (case x of None \<Rightarrow> [] | Some y \<Rightarrow> [y]) \<longleftrightarrow> x = Some it"
  by (cases x) auto

lemma pushByName_map_of:
  "map_of (pushByName nm r m) =
     (map_of m)(nm \<mapsto> (case map_of m nm of None \<Rightarrow> [r] | Some rs \<Rightarrow> rs @ [r]))"
  by (induction m) (auto simp: fun_upd_twist)

lemma groupLoop:
  "distinct (map fst m0) \<Longrightarrow>
   distinct (map fst (foldl (\<lambda>m r. pushByName (getNameFromRow r) r m) m0 rs)) \<and>
   map_of (foldl (\<lambda>m r. pushByName (getNameFromRow r) r m) m0 rs) nm =
     (case map_of m0 nm of
        None \<Rightarrow> (if \<exists>r\<in>set rs. getNameFromRow r = nm
                 then Some (filter (\<lambda>r. getNameFromRow r = nm) rs) else None)
      | Some prs \<Rightarrow> Some (prs @ filter (\<lambda>r. getNameFromRow r = nm) rs))"
proof (induction rs arbitrary: m0)
  case Nil
  then show ?case by (simp split: option.splits)
next
  case (Cons r rs)
  have d: "distinct (map fst (pushByName (getNameFromRow r) r m0))"
    using Cons.prems by (rule pushByName_distinct)
  show ?case
    using Cons.IH [OF d]
    by (auto simp: pushByName_map_of split: option.splits)
qed

lemma groupByName_distinct: "distinct (map fst (groupByName rs))"
  using groupLoop [of "[]" rs] by (simp add: groupByName_alt)

lemma groupByName_member:
  "(nm, prs) \<in> set (groupByName rs) \<longleftrightarrow>
     (\<exists>r\<in>set rs. getNameFromRow r = nm) \<and> prs = filter (\<lambda>r. getNameFromRow r = nm) rs"
proof -
  have "(nm, prs) \<in> set (groupByName rs) \<longleftrightarrow> map_of (groupByName rs) nm = Some prs"
    using groupByName_distinct by (simp add: map_of_eq_Some_iff)
  also have "\<dots> \<longleftrightarrow> (\<exists>r\<in>set rs. getNameFromRow r = nm) \<and> prs = filter (\<lambda>r. getNameFromRow r = nm) rs"
    using groupLoop [of "[]" rs nm] by (auto simp: groupByName_alt)
  finally show ?thesis .
qed

lemma personItem_Some:
  "personItem hs hsISO cols g = Some it \<longleftrightarrow>
     fst (personSets hs hsISO cols (snd g)) \<noteq> [] \<and>
     it = \<lparr>item_id = [97, 116, 116, 95] @ fst g, item_name = fst g,
            summary = mkSummary (length (snd (personSets hs hsISO cols (snd g))))
                        (length (fst (personSets hs hsISO cols (snd g))))
                        (real (length (snd (personSets hs hsISO cols (snd g))))
                         / real (length (fst (personSets hs hsISO cols (snd g)))))\<rparr>"
  by (auto simp: personItem_def Let_def)

lemma refreshWorstAttendance_member:
  "it \<in> set (refreshWorstAttendance cf payload source) \<longleftrightarrow>
     snd (gasPayloadToRows cf payload
            \<lparr>disableAttendance = True, sheetName = source, excludeForAttRate = []\<rparr>) \<noteq> []
     \<and> effectiveDateCols payload \<noteq> []
     \<and> (\<exists>g\<in>set (groupByName (snd (gasPayloadToRows cf payload
            \<lparr>disableAttendance = True, sheetName = source, excludeForAttRate = []\<rparr>))).
          personItem (fst (gasPayloadToRows cf payload
            \<lparr>disableAttendance = True, sheetName = source, excludeForAttRate = []\<rparr>))
            (payloadHeadersISO payload) (effectiveDateCols payload) g = Some it)"
proof -
  have "(\<exists>g\<in>G. it \<in> set (case f g of None \<Rightarrow> [] | Some y \<Rightarrow> [y])) \<longleftrightarrow> (\<exists>g\<in>G. f g = Some it)"
    for G :: "(ustring \<times> GasRecordRow list) set" and f
    unfolding option_list_member ..
  then show ?thesis
    unfolding refreshWorstAttendance_def Let_def by simp
qed

lemma fst_gasPayloadToRows [simp]: "fst (gasPayloadToRows cf payload options) = headers payload"
  by (simp add: gasPayloadToRows_def Let_def)

lemma mkSummary_sel [simp]:
  "rate (mkSummary a e r) = r" "attended (mkSummary a e r) = a"
  "expected (mkSummary a e r) = e" "status (mkSummary a e r) = statusFromRate r"
  by (simp_all add: mkSummary_def)

lemma worst_item:
  assumes "it \<in> set (refreshWorstAttendance cf payload source)"
  defines "gasRows \<equiv> snd (gasPayloadToRows cf payload
            \<lparr>disableAttendance = True, sheetName = source, excludeForAttRate = []\<rparr>)"
  defines "prs \<equiv> filter (\<lambda>r. getNameFromRow r = item_name it) gasRows"
  shows "\<exists>r\<in>set gasRows. getNameFromRow r = item_name it"
    and "expected (summary it) =
           length (fst (personSets (headers payload) (payloadHeadersISO payload) (effectiveDateCols payload) prs))"
    and "attended (summary it) =
           length (snd (personSets (headers payload) (payloadHeadersISO payload) (effectiveDateCols payload) prs))"
    and "rate (summary it) = real (attended (summary it)) / real (expected (summary it))"
    and "status (summary it) = statusFromRate (rate (summary it))"
    and "expected (summary it) > 0"
proof -
  from assms(1) obtain g where g: "g \<in> set (groupByName gasRows)"
    "personItem (headers payload) (payloadHeadersISO payload) (effectiveDateCols payload) g = Some it"
    unfolding refreshWorstAttendance_member gasRows_def by auto
  obtain nm rs where nmrs: "g = (nm, rs)" by (cases g)
  from g(1) have rs: "\<exists>r\<in>set gasRows. getNameFromRow r = nm"
    "rs = filter (\<lambda>r. getNameFromRow r = nm) gasRows"
    unfolding nmrs groupByName_member by auto
  from g(2) have it: "item_name it = nm"
    "fst (personSets (headers payload) (payloadHeadersISO payload) (effectiveDateCols payload) rs) \<noteq> []"
    "summary it = mkSummary (length (snd (personSets (headers payload) (payloadHeadersISO payload) (effectiveDateCols payload) rs)))
                        (length (fst (personSets (headers payload) (payloadHeadersISO payload) (effectiveDateCols payload) rs)))
                        (real (length (snd (personSets (headers payload) (payloadHeadersISO payload) (effectiveDateCols payload) rs)))
                         / real (length (fst (personSets (headers payload) (payloadHeadersISO payload) (effectiveDateCols payload) rs))))"
    unfolding personItem_Some nmrs by auto
  have "prs = rs" by (simp add: prs_def rs(2) it(1))
  show "\<exists>r\<in>set gasRows. getNameFromRow r = item_name it" using rs(1) it(1) by simp
  show "expected (summary it) =
           length (fst (personSets (headers payload) (payloadHeadersISO payload) (effectiveDateCols payload) prs))"
    by (simp add: it(3) \<open>prs = rs\<close>)
  show "attended (summary it) =
           length (snd (personSets (headers payload) (payloadHeadersISO payload) (effectiveDateCols payload) prs))"
    by (simp add: it(3) \<open>prs = rs\<close>)
  show "rate (summary it) = real (attended (summary it)) / real (expected (summary it))"
    by (simp add: it(3))
  show "status (summary it) = statusFromRate (rate (summary it))"
    by (simp add: it(3))
  show "expected (summary it) > 0"
    using it(2) by (simp add: it(3))
qed






section \<open>The sample sheets\<close>

lemma findNameIndex_first: "findNameIndex ([22995, 21517] # hs) = 0"
  by (simp add: findNameIndex_def isExactNameHeader_def string_defs)

lemma toRecordRow_off:
  "h \<noteq> [] \<Longrightarrow>
   toRecordRow payload (attendanceOff source) [[22995, 21517], h] 0 idx (plainRow [a, b] att) =
     recordRow ([103, 97, 115, 95] @ natToString idx) h a b att"
  by (simp add: toRecordRow_def Let_def columnKey_def jsIndex_def strOf_def)

lemma sampleSheet_rows:
  "gasPayloadToRows cfUnicode14 sampleSheet options =
     ([[22995, 21517], [49, 47, 49]],
      [toRecordRow sampleSheet options [[22995, 21517], [49, 47, 49]] 0 0 (plainRow [[65], [57]] (Some [0, 1])),
       toRecordRow sampleSheet options [[22995, 21517], [49, 47, 49]] 0 1 (plainRow [[65], [57]] (Some [0, 1])),
       toRecordRow sampleSheet options [[22995, 21517], [49, 47, 49]] 0 2 (plainRow [[66], [20241]] None)])"
  by (simp add: gasPayloadToRows_def Let_def isBlankRow_two jsIndex_def cleanForBlankCheck_samples
      findNameIndex_first numeral_2_eq_2)


lemma sample_names:
  "h \<noteq> [110, 97, 109, 101] \<Longrightarrow> getNameFromRow (recordRow idx h [65] b att) = [65]"
  "h \<noteq> [110, 97, 109, 101] \<Longrightarrow> getNameFromRow (recordRow idx h [66] b att) = [66]"
  by (simp_all add: getNameFromRow_def string_defs)

lemma sample_cells:
  "isShouldAttendCell (Some [57]) buildExcludeForAttRateSet"
  "\<not> isShouldAttendCell (Some [20241]) buildExcludeForAttRateSet"
  "isAutoAttendCell (Some [57]) buildExcludeFromAbsSet"
  by (simp_all add: isShouldAttendCell_def isAutoAttendCell_def tokenizeCell_def string_defs
      buildExcludeForAttRateSet_def buildExcludeFromAbsSet_def ALNUM_RE_def HAS_CJK_RE_def
      isAsciiAlnum_def)

lemma sample_effectiveDateCols:
  "effectiveDateCols sampleSheet = [1]" "effectiveDateCols blankHeaderSheet = [1]"
  "payloadHeadersISO sampleSheet = []" "payloadHeadersISO blankHeaderSheet = []"
  by (simp_all add: effectiveDateCols_def payloadHeadersISO_def)

lemma sample_dateIdentity: "dateIdentity [] [49, 47, 49] 1 = [49, 47, 49]"
  by (simp add: dateIdentity_def jsIndex_def string_defs)

lemma sample_personSets:
  "personSets [[22995, 21517], [49, 47, 49]] [] [1]
     [recordRow i [49, 47, 49] [65] [57] (Some [0, 1]), recordRow j [49, 47, 49] [65] [57] (Some [0, 1])]
   = ([[49, 47, 49]], [[49, 47, 49]])"
  "personSets [[22995, 21517], [49, 47, 49]] [] [1] [recordRow k [49, 47, 49] [66] [20241] None]
   = ([], [])"
  "personSets [[22995, 21517], [32]] [] [1] [recordRow i [32] [65] [57] (Some [0, 1])] = ([], [])"
  by (simp_all add: personSets_def worstStep_def jsIndex_def sample_cells sample_dateIdentity
      isActualAttendCell_def setAdd_def Let_def string_defs)

lemma sample_groups:
  "groupByName [recordRow i [49, 47, 49] [65] [57] (Some [0, 1]),
                recordRow j [49, 47, 49] [65] [57] (Some [0, 1]),
                recordRow k [49, 47, 49] [66] [20241] None]
   = [([65], [recordRow i [49, 47, 49] [65] [57] (Some [0, 1]),
              recordRow j [49, 47, 49] [65] [57] (Some [0, 1])]),
      ([66], [recordRow k [49, 47, 49] [66] [20241] None])]"
  "groupByName [recordRow i [32] [65] [57] (Some [0, 1])]
   = [([65], [recordRow i [32] [65] [57] (Some [0, 1])])]"
  by (simp_all add: groupByName_alt sample_names)

lemma sampleSheet_worst:
  "refreshWorstAttendance cfUnicode14 sampleSheet source =
     [\<lparr>item_id = [97, 116, 116, 95, 65], item_name = [65], summary = mkSummary 1 1 1\<rparr>]"
  by (simp add: refreshWorstAttendance_def Let_def sampleSheet_rows toRecordRow_off
      sample_effectiveDateCols sample_groups personItem_def sample_personSets)


section \<open>Per-employee aggregation\<close>













lemma isBlankRow_three:
  "isBlankRow cf [h0, h1, h2] r =
     (cleanForBlankCheck cf (jsIndex (row_v r) 0) = [] \<and> cleanForBlankCheck cf (jsIndex (row_v r) 1) = []
      \<and> cleanForBlankCheck cf (jsIndex (row_v r) 2) = [])"
  by (simp add: isBlankRow_def upt_rec numeral_3_eq_3)

lemma repeatedLabelSheet_rows:
  "snd (gasPayloadToRows cfUnicode14 repeatedLabelSheet (attendanceOff source)) =
     [\<lparr>row_id = [103, 97, 115, 95, 48], props = [[100] \<mapsto> [57], [22995, 21517] \<mapsto> [65]],
       u_bg = None, u_fc = None, u_att = None, u_attendance = None, u_attendanceRate = None\<rparr>]"
  by (simp add: gasPayloadToRows_def Let_def isBlankRow_three jsIndex_def cleanForBlankCheck_samples
      findNameIndex_first toRecordRow_def columnKey_def strOf_def natToString.simps upt_rec numeral_3_eq_3)

text \<open>
  Repeated labels.  On the sheet with two date columns labelled d, the normalized row
  of A holds under d the cell of the second column, 9; both dates are counted as
  expected and, 9 being a single token of a digit, as attended, although the raw row
  has the day-off token U+4F11 in the first of the two columns.
\<close>

lemma repeatedLabelSheet_worst:
  "refreshWorstAttendance cfUnicode14 repeatedLabelSheet source =
     [\<lparr>item_id = [97, 116, 116, 95, 65], item_name = [65], summary = mkSummary 2 2 1\<rparr>]"
proof -
  have cols: "effectiveDateCols repeatedLabelSheet = [1, 2]"
    "payloadHeadersISO repeatedLabelSheet = [[], [50, 48, 50, 52, 45, 48, 49, 45, 48, 49],
                         [50, 48, 50, 52, 45, 48, 49, 45, 48, 50]]"
    by (simp_all add: effectiveDateCols_def payloadHeadersISO_def)
  have ids: "dateIdentity [[], [50, 48, 50, 52, 45, 48, 49, 45, 48, 49],
                         [50, 48, 50, 52, 45, 48, 49, 45, 48, 50]] [100] 1 = [50, 48, 50, 52, 45, 48, 49, 45, 48, 49]"
    "dateIdentity [[], [50, 48, 50, 52, 45, 48, 49, 45, 48, 49],
                         [50, 48, 50, 52, 45, 48, 49, 45, 48, 50]] [100] 2 = [50, 48, 50, 52, 45, 48, 49, 45, 48, 50]"
    by (simp_all add: dateIdentity_def jsIndex_def string_defs)
  have sets: "personSets [[22995, 21517], [100], [100]] [[], [50, 48, 50, 52, 45, 48, 49, 45, 48, 49],
                         [50, 48, 50, 52, 45, 48, 49, 45, 48, 50]] [1, 2]
       [recordRow [103, 97, 115, 95, 48] [100] [65] [57] None]
     = ([[50, 48, 50, 52, 45, 48, 49, 45, 48, 49], [50, 48, 50, 52, 45, 48, 49, 45, 48, 50]],
        [[50, 48, 50, 52, 45, 48, 49, 45, 48, 49], [50, 48, 50, 52, 45, 48, 49, 45, 48, 50]])"
    by (simp add: personSets_def worstStep_def jsIndex_def sample_cells ids
      isActualAttendCell_def setAdd_def Let_def string_defs)
  show ?thesis
    by (simp add: refreshWorstAttendance_def Let_def repeatedLabelSheet_rows cols
        groupByName_alt sample_names personItem_def sets)
qed

section \<open>The ranking\<close>

text \<open>
  C10: an employee whose deduplicated should-attend set is empty has no item in the
  ranked list, hence none in the worst five and none in the best five.
\<close>

theorem C10_empty_expected_omitted:
  assumes "fst (personSets (headers payload) (payloadHeadersISO payload) (effectiveDateCols payload)
             (filter (\<lambda>r. getNameFromRow r = nm)
                (snd (gasPayloadToRows cf payload (attendanceOff source))))) = []"
  shows "nm \<notin> item_name ` set (refreshWorstAttendance cf payload source)
       \<and> nm \<notin> item_name ` set (attWorst5 (refreshWorstAttendance cf payload source))
       \<and> nm \<notin> item_name ` set (attBest5 (refreshWorstAttendance cf payload source))"
proof -
  have a: "nm \<notin> item_name ` set (refreshWorstAttendance cf payload source)"
  proof
    assume "nm \<in> item_name ` set (refreshWorstAttendance cf payload source)"
    then obtain it where it: "it \<in> set (refreshWorstAttendance cf payload source)" "nm = item_name it"
      by (rule imageE)
    from worst_item(2) [OF it(1)] worst_item(6) [OF it(1)] assms
    show False by (simp add: it(2))
  qed
  have "set (attWorst5 (refreshWorstAttendance cf payload source))
      \<subseteq> set (refreshWorstAttendance cf payload source)"
    unfolding attWorst5_def by (rule set_take_subset)
  moreover have "set (attBest5 (refreshWorstAttendance cf payload source))
      \<subseteq> set (refreshWorstAttendance cf payload source)"
    unfolding attBest5_def by (simp add: set_drop_subset)
  ultimately show ?thesis using a by blast
qed

text \<open>
  C10 on the sample sheet: the employee B, whose only cell is a day off, is in none
  of the three lists.
\<close>

theorem C10_empty_expected_omitted_witness:
  "fst (personSets (headers sampleSheet) (payloadHeadersISO sampleSheet) (effectiveDateCols sampleSheet)
          (filter (\<lambda>r. getNameFromRow r = [66])
             (snd (gasPayloadToRows cfUnicode14 sampleSheet (attendanceOff [29677, 34920]))))) = []
   \<and> [66] \<notin> item_name ` set (refreshWorstAttendance cfUnicode14 sampleSheet [29677, 34920])
   \<and> [66] \<notin> item_name ` set (attWorst5 (refreshWorstAttendance cfUnicode14 sampleSheet [29677, 34920]))
   \<and> [66] \<notin> item_name ` set (attBest5 (refreshWorstAttendance cfUnicode14 sampleSheet [29677, 34920]))"
proof -
  have h: "fst (personSets (headers sampleSheet) (payloadHeadersISO sampleSheet) (effectiveDateCols sampleSheet)
          (filter (\<lambda>r. getNameFromRow r = [66])
             (snd (gasPayloadToRows cfUnicode14 sampleSheet (attendanceOff [29677, 34920]))))) = []"
    by (simp add: sampleSheet_rows toRecordRow_off sample_names sample_effectiveDateCols
        sample_personSets)
  from h C10_empty_expected_omitted [OF h] show ?thesis by blast
qed

section \<open>The summary invariant\<close>

lemma wf_mkSummary:
  "a \<le> e \<Longrightarrow> r = (if 0 < e then real a / real e else 0) \<Longrightarrow> summaryWellFormed (mkSummary a e r)"
  by (simp add: summaryWellFormed_def)

lemma calcStep_le: "snd acc \<le> fst acc \<Longrightarrow> snd (calcStep hs r att ex acc ci) \<le> fst (calcStep hs r att ex acc ci)"
  by (simp add: calcStep_def split: option.splits)

lemma calcLoop_le:
  "snd acc \<le> fst acc \<Longrightarrow>
   snd (foldl (calcStep hs r att ex) acc cols) \<le> fst (foldl (calcStep hs r att ex) acc cols)"
  by (induction cols arbitrary: acc) (simp_all add: calcStep_le)

lemma doQueryStep_le: "snd acc \<le> fst acc \<Longrightarrow> snd (doQueryStep hs row acc ci) \<le> fst (doQueryStep hs row acc ci)"
  by (simp add: doQueryStep_def Let_def split: option.splits)

lemma doQueryLoop_le:
  "snd acc \<le> fst acc \<Longrightarrow>
   snd (foldl (doQueryStep hs row) acc cols) \<le> fst (foldl (doQueryStep hs row) acc cols)"
  by (induction cols arbitrary: acc) (simp_all add: doQueryStep_le)

lemma calcAttendance_wf:
  assumes "calcAttendance hs dcols r options = Some s"
  shows "summaryWellFormed s"
proof -
  from assms obtain cols where dc: "dcols = Some cols"
    by (cases dcols) (auto simp: calcAttendance_def split: if_splits)
  from assms obtain att where at: "row_att r = Some att"
    by (cases "row_att r") (auto simp: calcAttendance_def dc split: if_splits)
  define days where
    "days = foldl (calcStep hs r att (buildExcludeSet (excludeForAttRate options))) (0, 0) cols"
  have "calcAttendance hs dcols r options = None \<or>
        calcAttendance hs dcols r options =
          Some (mkSummary (snd days) (fst days)
                  (if 0 < fst days then real (snd days) / real (fst days) else 0))"
    by (simp add: calcAttendance_def Let_def dc at days_def)
  with assms have s: "s = mkSummary (snd days) (fst days)
                  (if 0 < fst days then real (snd days) / real (fst days) else 0)"
    by simp
  have "snd days \<le> fst days"
    unfolding days_def by (rule calcLoop_le) simp
  then show ?thesis
    unfolding s by (rule wf_mkSummary) simp
qed

lemma normalized_row_wf:
  assumes "row \<in> set (snd (gasPayloadToRows cf payload options))" "u_attendance row = Some s"
  shows "summaryWellFormed s"
proof -
  from assms(1) obtain idx r where
    "row = toRecordRow payload options (headers payload) (findNameIndex (headers payload)) idx r"
    by (rule emitted_row)
  with assms(2) have "calcAttendance (headers payload) (dateCols payload) r options = Some s"
    by (simp add: toRecordRow_attendance split: if_splits)
  then show ?thesis by (rule calcAttendance_wf)
qed

lemma worst_item_wf:
  assumes "it \<in> set (refreshWorstAttendance cf payload source)"
  shows "summaryWellFormed (summary it)"
proof -
  have "attended (summary it) \<le> expected (summary it)"
    unfolding worst_item(2) [OF assms] worst_item(3) [OF assms] by (rule personSets_le)
  moreover have "0 < expected (summary it)" using assms by (rule worst_item(6))
  moreover have "rate (summary it) = real (attended (summary it)) / real (expected (summary it))"
    using assms by (rule worst_item(4))
  ultimately show ?thesis by (simp add: summaryWellFormed_def)
qed

lemma doQueryAnnotate_wf:
  assumes "\<And>s. u_attendance row = Some s \<Longrightarrow> summaryWellFormed s"
  shows "\<exists>s. u_attendance (doQueryAnnotate isHoursPage isSchedulePage hs cols row) = Some s
            \<and> summaryWellFormed s"
proof (cases "u_attendance row")
  case (Some s)
  then show ?thesis using assms by (simp add: doQueryAnnotate_def)
next
  case None
  define days where "days = (if \<not> isHoursPage \<and> isSchedulePage \<and> length cols \<noteq> 0
               then foldl (doQueryStep hs row) (0, 0) cols else (0, 0))"
  have eq: "u_attendance (doQueryAnnotate isHoursPage isSchedulePage hs cols row) =
      Some (mkSummary (snd days) (fst days)
              (if 0 < fst days then real (snd days) / real (fst days) else 0))"
    using None unfolding doQueryAnnotate_def Let_def days_def by simp
  have "snd days \<le> fst days"
    by (simp add: days_def doQueryLoop_le)
  then have "summaryWellFormed (mkSummary (snd days) (fst days)
      (if 0 < fst days then real (snd days) / real (fst days) else 0))"
    by (rule wf_mkSummary) simp
  then show ?thesis
    unfolding eq by simp
qed

lemma doQueryRows_wf:
  assumes "row \<in> set (doQueryRows cf payload page isHoursPage)"
  shows "\<exists>s. u_attendance row = Some s \<and> summaryWellFormed s"
proof -
  from assms obtain row0 where row0:
    "row0 \<in> set (snd (gasPayloadToRows cf payload
        \<lparr>disableAttendance = isHoursPage, sheetName = page, excludeForAttRate = []\<rparr>))"
    "row = doQueryAnnotate isHoursPage (includesStr page [29677, 34920])
             (fst (gasPayloadToRows cf payload
        \<lparr>disableAttendance = isHoursPage, sheetName = page, excludeForAttRate = []\<rparr>))
             (effectiveDateCols payload) row0"
    unfolding doQueryRows_def Let_def by auto
  have "summaryWellFormed s" if "u_attendance row0 = Some s" for s
    using row0(1) that by (rule normalized_row_wf)
  then show ?thesis
    unfolding row0(2) by (rule doQueryAnnotate_wf)
qed

text \<open>
  C6: every summary produced by the normalizer (\<open>calcAttendance\<close>, and so every
  summary on a row of \<open>gasPayloadToRows\<close>), by the per-employee aggregation
  (\<open>refreshWorstAttendance\<close>) and by the per-row pass of \<open>doQuery\<close>, which leaves a
  summary on every row, is well formed: the rate is attended over expected when
  expected is positive and zero when expected is zero, attended is at most expected,
  and the rate lies between zero and one.  The rate is the exact quotient here.
\<close>

theorem C6_summary_invariant:
  "(\<forall>s. calcAttendance hs dcols r options = Some s \<longrightarrow> summaryWellFormed s)
   \<and> (\<forall>row\<in>set (snd (gasPayloadToRows cf payload options)).
        \<forall>s. u_attendance row = Some s \<longrightarrow> summaryWellFormed s)
   \<and> (\<forall>it\<in>set (refreshWorstAttendance cf payload source). summaryWellFormed (summary it))
   \<and> (\<forall>row\<in>set (doQueryRows cf payload page isHoursPage).
        \<exists>s. u_attendance row = Some s \<and> summaryWellFormed s)
   \<and> (\<forall>s. summaryWellFormed s \<longrightarrow>
        (0 < expected s \<longrightarrow> rate s = real (attended s) / real (expected s))
        \<and> (expected s = 0 \<longrightarrow> rate s = 0)
        \<and> attended s \<le> expected s \<and> 0 \<le> rate s \<and> rate s \<le> 1)"
proof (intro conjI allI ballI impI)
  fix s assume "calcAttendance hs dcols r options = Some s"
  then show "summaryWellFormed s" by (rule calcAttendance_wf)
next
  fix row s assume "row \<in> set (snd (gasPayloadToRows cf payload options))" "u_attendance row = Some s"
  then show "summaryWellFormed s" by (rule normalized_row_wf)
next
  fix it assume "it \<in> set (refreshWorstAttendance cf payload source)"
  then show "summaryWellFormed (summary it)" by (rule worst_item_wf)
next
  fix row assume "row \<in> set (doQueryRows cf payload page isHoursPage)"
  then show "\<exists>s. u_attendance row = Some s \<and> summaryWellFormed s" by (rule doQueryRows_wf)
qed (simp_all add: summaryWellFormed_def)

lemma sample_calcAttendance:
  "calcAttendance [[22995, 21517], [49, 47, 49]] (Some [1]) (plainRow [[65], [57]] (Some [0, 1]))
     (attendanceOn [29677, 34920]) = Some (mkSummary 1 1 1)"
  by (simp add: calcAttendance_def calcStep_def jsIndex_def truthyFlag_def Let_def buildExcludeSet_def
      isShouldAttendCell_def tokenizeCell_def string_defs)

lemma sampleSheet_doQuery:
  "doQueryRows cfUnicode14 sampleSheet [29677, 34920] False =
     map (doQueryAnnotate False True [[22995, 21517], [49, 47, 49]] [1])
       (snd (gasPayloadToRows cfUnicode14 sampleSheet (attendanceOn [29677, 34920])))"
  by (simp add: doQueryRows_def Let_def sample_effectiveDateCols sampleSheet_rows)

text \<open>
  C6 on the sample sheet, opened as a roster page: the summary computed for the first
  row of the employee A, the summary that the normalizer attaches to that row, the
  summary of A in the per-employee list and the summary that the page attaches to the
  row of B, which has no attendance flags, are all well formed; the summary of A is
  one attended day of one expected, rate 1.
\<close>

theorem C6_summary_invariant_witness:
  "calcAttendance [[22995, 21517], [49, 47, 49]] (Some [1]) (plainRow [[65], [57]] (Some [0, 1]))
     (attendanceOn [29677, 34920]) = Some (mkSummary 1 1 1)
   \<and> \<lparr>item_id = [97, 116, 116, 95, 65], item_name = [65], summary = mkSummary 1 1 1\<rparr>
       \<in> set (refreshWorstAttendance cfUnicode14 sampleSheet [29677, 34920])
   \<and> summaryWellFormed (mkSummary 1 1 1)
   \<and> rate (mkSummary 1 1 1) = 1 \<and> attended (mkSummary 1 1 1) = 1 \<and> expected (mkSummary 1 1 1) = 1
   \<and> toRecordRow sampleSheet (attendanceOn [29677, 34920]) [[22995, 21517], [49, 47, 49]] 0 0
        (plainRow [[65], [57]] (Some [0, 1]))
       \<in> set (snd (gasPayloadToRows cfUnicode14 sampleSheet (attendanceOn [29677, 34920])))
   \<and> u_attendance (toRecordRow sampleSheet (attendanceOn [29677, 34920])
        [[22995, 21517], [49, 47, 49]] 0 0 (plainRow [[65], [57]] (Some [0, 1]))) = Some (mkSummary 1 1 1)
   \<and> doQueryAnnotate False True [[22995, 21517], [49, 47, 49]] [1]
        (toRecordRow sampleSheet (attendanceOn [29677, 34920]) [[22995, 21517], [49, 47, 49]] 0 2
           (plainRow [[66], [20241]] None))
       \<in> set (doQueryRows cfUnicode14 sampleSheet [29677, 34920] False)
   \<and> (\<exists>s. u_attendance (doQueryAnnotate False True [[22995, 21517], [49, 47, 49]] [1]
        (toRecordRow sampleSheet (attendanceOn [29677, 34920]) [[22995, 21517], [49, 47, 49]] 0 2
           (plainRow [[66], [20241]] None))) = Some s \<and> summaryWellFormed s)"
proof -
  note inst = C6_summary_invariant [of "[[22995, 21517], [49, 47, 49]]" "Some [1]"
      "plainRow [[65], [57]] (Some [0, 1])" "attendanceOn [29677, 34920]"
      cfUnicode14 sampleSheet "[29677, 34920]" "[29677, 34920]" False]
  have wf: "summaryWellFormed (mkSummary 1 1 1)"
    using inst [THEN conjunct1, rule_format, OF sample_calcAttendance] .
  have mem: "\<lparr>item_id = [97, 116, 116, 95, 65], item_name = [65], summary = mkSummary 1 1 1\<rparr>
      \<in> set (refreshWorstAttendance cfUnicode14 sampleSheet [29677, 34920])"
    by (simp add: sampleSheet_worst)
  have row0: "toRecordRow sampleSheet (attendanceOn [29677, 34920]) [[22995, 21517], [49, 47, 49]] 0 0
        (plainRow [[65], [57]] (Some [0, 1]))
       \<in> set (snd (gasPayloadToRows cfUnicode14 sampleSheet (attendanceOn [29677, 34920])))"
    by (simp add: sampleSheet_rows)
  have att0: "u_attendance (toRecordRow sampleSheet (attendanceOn [29677, 34920])
        [[22995, 21517], [49, 47, 49]] 0 0 (plainRow [[65], [57]] (Some [0, 1]))) = Some (mkSummary 1 1 1)"
    by (simp add: toRecordRow_attendance sample_calcAttendance)
  have rowB: "doQueryAnnotate False True [[22995, 21517], [49, 47, 49]] [1]
        (toRecordRow sampleSheet (attendanceOn [29677, 34920]) [[22995, 21517], [49, 47, 49]] 0 2
           (plainRow [[66], [20241]] None))
       \<in> set (doQueryRows cfUnicode14 sampleSheet [29677, 34920] False)"
    unfolding sampleSheet_doQuery sampleSheet_rows by simp
  from wf mem row0 att0 rowB
    inst [THEN conjunct2, THEN conjunct1, rule_format, OF row0 att0]
    inst [THEN conjunct2, THEN conjunct2, THEN conjunct1, rule_format, OF mem]
    inst [THEN conjunct2, THEN conjunct2, THEN conjunct2, THEN conjunct1, rule_format, OF rowB]
  show ?thesis
    by (simp add: sample_calcAttendance)
qed

section \<open>Attendance at normalization\<close>

lemma sample_calcAttendance_none:
  "calcAttendance hs dcols (plainRow cells None) options = None"
  using calcAttendance_Some_iff [of hs dcols "plainRow cells None" options] by simp

text \<open>
  The amended C8 on the sample sheet, normalized as a schedule sheet with attendance
  enabled: the first row, which carries the flags 0, 1, has both fields populated.
\<close>

theorem C8_attendance_populated_witness:
  "\<not> disableAttendance (attendanceOn [29677, 34920])
   \<and> includesStr (sheetName (attendanceOn [29677, 34920])) [29677, 34920]
   \<and> toRecordRow sampleSheet (attendanceOn [29677, 34920]) [[22995, 21517], [49, 47, 49]] 0 0
        (plainRow [[65], [57]] (Some [0, 1]))
      \<in> set (snd (gasPayloadToRows cfUnicode14 sampleSheet (attendanceOn [29677, 34920])))
   \<and> u_attendance (toRecordRow sampleSheet (attendanceOn [29677, 34920])
        [[22995, 21517], [49, 47, 49]] 0 0 (plainRow [[65], [57]] (Some [0, 1]))) \<noteq> None
   \<and> u_attendanceRate (toRecordRow sampleSheet (attendanceOn [29677, 34920])
        [[22995, 21517], [49, 47, 49]] 0 0 (plainRow [[65], [57]] (Some [0, 1]))) \<noteq> None"
proof -
  have a: "\<not> disableAttendance (attendanceOn [29677, 34920])" by simp
  have b: "includesStr (sheetName (attendanceOn [29677, 34920])) [29677, 34920]" by simp
  have c: "toRecordRow sampleSheet (attendanceOn [29677, 34920]) [[22995, 21517], [49, 47, 49]] 0 0
        (plainRow [[65], [57]] (Some [0, 1]))
      \<in> set (snd (gasPayloadToRows cfUnicode14 sampleSheet (attendanceOn [29677, 34920])))"
    by (simp add: sampleSheet_rows)
  from C8_attendance_populated_amended [OF a b c] a b c show ?thesis
    by (simp add: toRecordRow_attendance(3))
qed

text \<open>
  C8 as stated fails: on the same sheet, with attendance enabled and the schedule
  marker in the sheet name, the third row, which carries no att array, is emitted
  with neither field populated.
\<close>

theorem C8_attendance_populated_counterexample:
  "\<not> disableAttendance (attendanceOn [29677, 34920])
   \<and> includesStr (sheetName (attendanceOn [29677, 34920])) [29677, 34920]
   \<and> toRecordRow sampleSheet (attendanceOn [29677, 34920]) [[22995, 21517], [49, 47, 49]] 0 2
        (plainRow [[66], [20241]] None)
      \<in> set (snd (gasPayloadToRows cfUnicode14 sampleSheet (attendanceOn [29677, 34920])))
   \<and> u_attendance (toRecordRow sampleSheet (attendanceOn [29677, 34920])
        [[22995, 21517], [49, 47, 49]] 0 2 (plainRow [[66], [20241]] None)) = None
   \<and> u_attendanceRate (toRecordRow sampleSheet (attendanceOn [29677, 34920])
        [[22995, 21517], [49, 47, 49]] 0 2 (plainRow [[66], [20241]] None)) = None"
  by (simp add: sampleSheet_rows toRecordRow_attendance sample_calcAttendance_none)

section \<open>Status thresholds\<close>

lemma statusMatchesRate_fromRate:
  "status s = statusFromRate (rate s) \<Longrightarrow> statusMatchesRate s"
  by (auto simp: statusMatchesRate_def statusFromRate_def)

lemma statusMatchesRate_mkSummary: "statusMatchesRate (mkSummary a e r)"
  by (rule statusMatchesRate_fromRate) simp

lemma calcAttendance_status:
  assumes "calcAttendance hs dcols r options = Some s"
  shows "statusMatchesRate s"
proof -
  from assms obtain a e q where "s = mkSummary a e q"
    by (auto simp: calcAttendance_def Let_def split: option.splits if_splits)
  then show ?thesis by (simp add: statusMatchesRate_mkSummary)
qed

lemma normalized_row_status:
  assumes "row \<in> set (snd (gasPayloadToRows cf payload options))" "u_attendance row = Some s"
  shows "statusMatchesRate s"
proof -
  from assms(1) obtain idx r where
    "row = toRecordRow payload options (headers payload) (findNameIndex (headers payload)) idx r"
    by (rule emitted_row)
  with assms(2) have "calcAttendance (headers payload) (dateCols payload) r options = Some s"
    by (simp add: toRecordRow_attendance split: if_splits)
  then show ?thesis by (rule calcAttendance_status)
qed

lemma worst_item_status:
  assumes "it \<in> set (refreshWorstAttendance cf payload source)"
  shows "statusMatchesRate (summary it)"
  using worst_item(5) [OF assms] by (rule statusMatchesRate_fromRate)

lemma doQueryAnnotate_status:
  assumes "\<And>s. u_attendance row = Some s \<Longrightarrow> statusMatchesRate s"
  shows "\<exists>s. u_attendance (doQueryAnnotate isHoursPage isSchedulePage hs cols row) = Some s
            \<and> statusMatchesRate s"
proof (cases "u_attendance row")
  case (Some s)
  then show ?thesis using assms by (simp add: doQueryAnnotate_def)
next
  case None
  then show ?thesis
    by (simp add: doQueryAnnotate_def Let_def statusMatchesRate_mkSummary)
qed

lemma doQueryRows_status:
  assumes "row \<in> set (doQueryRows cf payload page isHoursPage)"
  shows "\<exists>s. u_attendance row = Some s \<and> statusMatchesRate s"
proof -
  from assms obtain row0 where row0:
    "row0 \<in> set (snd (gasPayloadToRows cf payload
        \<lparr>disableAttendance = isHoursPage, sheetName = page, excludeForAttRate = []\<rparr>))"
    "row = doQueryAnnotate isHoursPage (includesStr page [29677, 34920])
             (fst (gasPayloadToRows cf payload
        \<lparr>disableAttendance = isHoursPage, sheetName = page, excludeForAttRate = []\<rparr>))
             (effectiveDateCols payload) row0"
    unfolding doQueryRows_def Let_def by auto
  have "statusMatchesRate s" if "u_attendance row0 = Some s" for s
    using row0(1) that by (rule normalized_row_status)
  then show ?thesis
    unfolding row0(2) by (rule doQueryAnnotate_status)
qed

text \<open>
  C5: \<open>statusFromRate\<close> gives normal exactly when the rate is at least 0.90, low
  exactly when the rate is at least 0.75 and below 0.90, abnormal exactly when it is
  below 0.75; the rates 0.90 and 0.75 themselves give normal and low.  Every computed
  summary has its status so related to its own rate: the summary \<open>calcAttendance\<close>
  returns, the summary the normalizer attaches to a row, the summary of every item
  of the per-employee list, and the summary every row carries after the per-row pass
  of the page.
\<close>

theorem C5_status_thresholds:
  "(statusFromRate r = normal \<longleftrightarrow> r \<ge> 9 / 10)
   \<and> (statusFromRate r = low \<longleftrightarrow> 3 / 4 \<le> r \<and> r < 9 / 10)
   \<and> (statusFromRate r = abnormal \<longleftrightarrow> r < 3 / 4)
   \<and> statusFromRate (9 / 10) = normal \<and> statusFromRate (3 / 4) = low
   \<and> (\<forall>s. calcAttendance hs dcols raw options = Some s \<longrightarrow> statusMatchesRate s)
   \<and> (\<forall>row\<in>set (snd (gasPayloadToRows cf payload options)).
        \<forall>s. u_attendance row = Some s \<longrightarrow> statusMatchesRate s)
   \<and> (\<forall>it\<in>set (refreshWorstAttendance cf payload source). statusMatchesRate (summary it))
   \<and> (\<forall>row\<in>set (doQueryRows cf payload page isHoursPage).
        \<exists>s. u_attendance row = Some s \<and> statusMatchesRate s)
   \<and> (\<forall>s. statusMatchesRate s \<longleftrightarrow>
        (status s = normal \<longleftrightarrow> rate s \<ge> 9 / 10)
        \<and> (status s = low \<longleftrightarrow> 3 / 4 \<le> rate s \<and> rate s < 9 / 10)
        \<and> (status s = abnormal \<longleftrightarrow> rate s < 3 / 4))"
proof (intro conjI allI ballI impI)
  fix s assume "calcAttendance hs dcols raw options = Some s"
  then show "statusMatchesRate s" by (rule calcAttendance_status)
next
  fix row s assume "row \<in> set (snd (gasPayloadToRows cf payload options))" "u_attendance row = Some s"
  then show "statusMatchesRate s" by (rule normalized_row_status)
next
  fix it assume "it \<in> set (refreshWorstAttendance cf payload source)"
  then show "statusMatchesRate (summary it)" by (rule worst_item_status)
next
  fix row assume "row \<in> set (doQueryRows cf payload page isHoursPage)"
  then show "\<exists>s. u_attendance row = Some s \<and> statusMatchesRate s" by (rule doQueryRows_status)
next
  fix s show "statusMatchesRate s \<longleftrightarrow>
        (status s = normal \<longleftrightarrow> rate s \<ge> 9 / 10)
        \<and> (status s = low \<longleftrightarrow> 3 / 4 \<le> rate s \<and> rate s < 9 / 10)
        \<and> (status s = abnormal \<longleftrightarrow> rate s < 3 / 4)"
    by (simp add: statusMatchesRate_def)
qed (auto simp: statusFromRate_def)

lemma toRecordRow_on_noflags:
  "h \<noteq> [] \<Longrightarrow>
   toRecordRow payload (attendanceOn page) [[22995, 21517], h] 0 idx (plainRow [a, b] None) =
     recordRow ([103, 97, 115, 95] @ natToString idx) h a b None"
  by (simp add: toRecordRow_def Let_def columnKey_def jsIndex_def strOf_def sample_calcAttendance_none)

lemma sample_doQueryAnnotate:
  "doQueryAnnotate False True [[22995, 21517], [49, 47, 49]] [1]
     (recordRow rid [49, 47, 49] [66] [20241] None)
   = (recordRow rid [49, 47, 49] [66] [20241] None)
       \<lparr>u_attendance := Some (mkSummary 0 0 0), u_attendanceRate := Some 0\<rparr>"
  by (simp add: doQueryAnnotate_def doQueryStep_def jsIndex_def sample_cells Let_def)

text \<open>
  C5 on the sample sheet, opened as a roster page: the summary computed for the first
  row of the employee A and the summary of A in the per-employee list have rate 1
  and status normal; the summary that the page attaches to the row of B, zero days
  of zero, has rate 0 and status abnormal.
\<close>

theorem C5_status_thresholds_witness:
  "calcAttendance [[22995, 21517], [49, 47, 49]] (Some [1]) (plainRow [[65], [57]] (Some [0, 1]))
     (attendanceOn [29677, 34920]) = Some (mkSummary 1 1 1)
   \<and> \<lparr>item_id = [97, 116, 116, 95, 65], item_name = [65], summary = mkSummary 1 1 1\<rparr>
       \<in> set (refreshWorstAttendance cfUnicode14 sampleSheet [29677, 34920])
   \<and> rate (mkSummary 1 1 1) = 1 \<and> status (mkSummary 1 1 1) = normal
   \<and> (recordRow [103, 97, 115, 95, 50] [49, 47, 49] [66] [20241] None)
         \<lparr>u_attendance := Some (mkSummary 0 0 0), u_attendanceRate := Some 0\<rparr>
       \<in> set (doQueryRows cfUnicode14 sampleSheet [29677, 34920] False)
   \<and> rate (mkSummary 0 0 0) = 0 \<and> status (mkSummary 0 0 0) = abnormal"
proof -
  note inst = C5_status_thresholds [of _ "[[22995, 21517], [49, 47, 49]]" "Some [1]"
      "plainRow [[65], [57]] (Some [0, 1])" "attendanceOn [29677, 34920]"
      cfUnicode14 sampleSheet "[29677, 34920]" "[29677, 34920]" False]
  have mem: "\<lparr>item_id = [97, 116, 116, 95, 65], item_name = [65], summary = mkSummary 1 1 1\<rparr>
      \<in> set (refreshWorstAttendance cfUnicode14 sampleSheet [29677, 34920])"
    by (simp add: sampleSheet_worst)
  have rowB: "(recordRow [103, 97, 115, 95, 50] [49, 47, 49] [66] [20241] None)
         \<lparr>u_attendance := Some (mkSummary 0 0 0), u_attendanceRate := Some 0\<rparr>
       \<in> set (doQueryRows cfUnicode14 sampleSheet [29677, 34920] False)"
    unfolding sampleSheet_doQuery sampleSheet_rows
    by (simp add: toRecordRow_on_noflags sample_doQueryAnnotate natToString.simps)
  have one: "statusMatchesRate (mkSummary 1 1 1)"
    using inst [THEN conjunct2, THEN conjunct2, THEN conjunct2, THEN conjunct2, THEN conjunct2,
        THEN conjunct1, rule_format, OF sample_calcAttendance] .
  have one': "statusMatchesRate (mkSummary 1 1 1)"
    using inst [THEN conjunct2, THEN conjunct2, THEN conjunct2, THEN conjunct2, THEN conjunct2,
        THEN conjunct2, THEN conjunct2, THEN conjunct1, rule_format, OF mem] by simp
  have zero: "statusMatchesRate (mkSummary 0 0 0)"
    using inst [THEN conjunct2, THEN conjunct2, THEN conjunct2, THEN conjunct2, THEN conjunct2,
        THEN conjunct2, THEN conjunct2, THEN conjunct2, THEN conjunct1, rule_format, OF rowB] by simp
  have r: "rate (mkSummary 1 1 1) = 1" "rate (mkSummary 0 0 0) = 0"
    by (simp_all add: mkSummary_def)
  have "status (mkSummary 1 1 1) = normal"
    using one' r(1) unfolding statusMatchesRate_def by simp
  moreover have "status (mkSummary 0 0 0) = abnormal"
    using zero r(2) unfolding statusMatchesRate_def by simp
  ultimately show ?thesis
    using one mem rowB r by (simp add: sample_calcAttendance)
qed

section \<open>The request cache\<close>

lemma call_hit:
  assumes "getBaseUrl env = Some base"
    and "QUERY_CACHE st (queryKey base warehouse sheet name) = Some hit"
    and "now - ts hit < QUERY_CACHE_MS"
  shows "gasQuerySheet_call newURL env now warehouse sheet name st = (CacheHit (entry_value hit), st)"
  using assms by (simp add: gasQuerySheet_call_def Let_def)

lemma call_miss:
  assumes "getBaseUrl env = Some base"
    and "QUERY_CACHE st (queryKey base warehouse sheet name) = None
         \<or> (\<exists>hit. QUERY_CACHE st (queryKey base warehouse sheet name) = Some hit
                  \<and> now - ts hit \<ge> QUERY_CACHE_MS)"
  shows "gasQuerySheet_call newURL env now warehouse sheet name st =
     (case QUERY_INFLIGHT st (queryKey base warehouse sheet name) of
        Some p \<Rightarrow> (JoinedInflight p, st)
      | None \<Rightarrow> (if newURL base then IssuedFetch (nextPromise st) else UrlRejected (nextPromise st),
                 st\<lparr>QUERY_INFLIGHT := (QUERY_INFLIGHT st)(queryKey base warehouse sheet name \<mapsto> nextPromise st),
                    nextPromise := nextPromise st + 1\<rparr>))"
  using assms by (auto simp: gasQuerySheet_call_def Let_def split: option.splits)

lemma settle_success:
  assumes "error json = None \<or> error json = Some []"
  shows "fst (gasQuerySheet_settle later ck (FetchedJson json) st) = Inr json"
    and "QUERY_CACHE (snd (gasQuerySheet_settle later ck (FetchedJson json) st)) =
           (QUERY_CACHE st)(ck \<mapsto> \<lparr>ts = later, entry_value = json\<rparr>)"
    and "QUERY_INFLIGHT (snd (gasQuerySheet_settle later ck (FetchedJson json) st)) =
           (QUERY_INFLIGHT st)(ck := None)"
  using assms by (auto simp: gasQuerySheet_settle_def Let_def split: option.splits)

lemma settle_failure:
  "fst (gasQuerySheet_settle later ck (FetchThrew msg) st) = Inl (TransportError msg)"
  "QUERY_CACHE (snd (gasQuerySheet_settle later ck (FetchThrew msg) st)) = QUERY_CACHE st"
  "QUERY_INFLIGHT (snd (gasQuerySheet_settle later ck (FetchThrew msg) st)) =
     (QUERY_INFLIGHT st)(ck := None)"
  by (simp_all add: gasQuerySheet_settle_def Let_def)

lemma settle_url_failure:
  "fst (gasQuerySheet_settle later ck (UrlThrew msg) st) = Inl (UrlError msg)"
  "QUERY_CACHE (snd (gasQuerySheet_settle later ck (UrlThrew msg) st)) = QUERY_CACHE st"
  "QUERY_INFLIGHT (snd (gasQuerySheet_settle later ck (UrlThrew msg) st)) =
     (QUERY_INFLIGHT st)(ck := None)"
  by (simp_all add: gasQuerySheet_settle_def Let_def)

lemma settle_payload_error:
  assumes "error json = Some msg" "msg \<noteq> []"
  shows "fst (gasQuerySheet_settle later ck (FetchedJson json) st) = Inl (PayloadError msg)"
    and "QUERY_CACHE (snd (gasQuerySheet_settle later ck (FetchedJson json) st)) = QUERY_CACHE st"
    and "QUERY_INFLIGHT (snd (gasQuerySheet_settle later ck (FetchedJson json) st)) =
           (QUERY_INFLIGHT st)(ck := None)"
  using assms by (simp_all add: gasQuerySheet_settle_def Let_def)

text \<open>
  C9 (amended): with the endpoint configured and for every cache key, the TTL is
  120000 ms.  A call that finds an entry of age strictly below the TTL returns the
  cached payload, issues no fetch and leaves both maps as they are.  A call that
  finds no entry, or one of age at least the TTL, returns the pending request and
  issues no fetch when a request for the key is in flight; when none is, it starts a
  request and registers it in flight, and that request issues a fetch when the
  configured endpoint parses as a URL and is rejected without any fetch when it does
  not.  The settlement of a request stores a good payload under the key with the time
  of arrival; it leaves the cache as it is when the URL was rejected, when the fetch
  threw or when the payload carries an error, and that error is the result the
  awaiters get; it removes the in-flight entry of the key in all four cases.
\<close>

theorem C9_query_cache_amended:
  fixes warehouse sheet :: ustring and name :: "ustring option"
  assumes "getBaseUrl env = Some base"
  defines "ck \<equiv> queryKey base warehouse sheet name"
  shows "QUERY_CACHE_MS = 120000
    \<and> (\<forall>hit. QUERY_CACHE st ck = Some hit \<and> now - ts hit < QUERY_CACHE_MS \<longrightarrow>
          gasQuerySheet_call newURL env now warehouse sheet name st = (CacheHit (entry_value hit), st))
    \<and> (QUERY_CACHE st ck = None
        \<or> (\<exists>hit. QUERY_CACHE st ck = Some hit \<and> now - ts hit \<ge> QUERY_CACHE_MS) \<longrightarrow>
          (QUERY_INFLIGHT st ck = None \<and> newURL base \<longrightarrow>
             gasQuerySheet_call newURL env now warehouse sheet name st =
               (IssuedFetch (nextPromise st),
                st\<lparr>QUERY_INFLIGHT := (QUERY_INFLIGHT st)(ck \<mapsto> nextPromise st),
                   nextPromise := nextPromise st + 1\<rparr>))
          \<and> (QUERY_INFLIGHT st ck = None \<and> \<not> newURL base \<longrightarrow>
             gasQuerySheet_call newURL env now warehouse sheet name st =
               (UrlRejected (nextPromise st),
                st\<lparr>QUERY_INFLIGHT := (QUERY_INFLIGHT st)(ck \<mapsto> nextPromise st),
                   nextPromise := nextPromise st + 1\<rparr>))
          \<and> (\<forall>p. QUERY_INFLIGHT st ck = Some p \<longrightarrow>
                gasQuerySheet_call newURL env now warehouse sheet name st = (JoinedInflight p, st)))
    \<and> (\<forall>json later st'. error json = None \<or> error json = Some [] \<longrightarrow>
          fst (gasQuerySheet_settle later ck (FetchedJson json) st') = Inr json
          \<and> QUERY_CACHE (snd (gasQuerySheet_settle later ck (FetchedJson json) st')) =
              (QUERY_CACHE st')(ck \<mapsto> \<lparr>ts = later, entry_value = json\<rparr>)
          \<and> QUERY_INFLIGHT (snd (gasQuerySheet_settle later ck (FetchedJson json) st')) ck = None)
    \<and> (\<forall>msg later st'.
          fst (gasQuerySheet_settle later ck (FetchThrew msg) st') = Inl (TransportError msg)
          \<and> QUERY_CACHE (snd (gasQuerySheet_settle later ck (FetchThrew msg) st')) = QUERY_CACHE st'
          \<and> QUERY_INFLIGHT (snd (gasQuerySheet_settle later ck (FetchThrew msg) st')) ck = None)
    \<and> (\<forall>json msg later st'. error json = Some msg \<and> msg \<noteq> [] \<longrightarrow>
          fst (gasQuerySheet_settle later ck (FetchedJson json) st') = Inl (PayloadError msg)
          \<and> QUERY_CACHE (snd (gasQuerySheet_settle later ck (FetchedJson json) st')) = QUERY_CACHE st'
          \<and> QUERY_INFLIGHT (snd (gasQuerySheet_settle later ck (FetchedJson json) st')) ck = None)
    \<and> (\<forall>msg later st'.
          fst (gasQuerySheet_settle later ck (UrlThrew msg) st') = Inl (UrlError msg)
          \<and> QUERY_CACHE (snd (gasQuerySheet_settle later ck (UrlThrew msg) st')) = QUERY_CACHE st'
          \<and> QUERY_INFLIGHT (snd (gasQuerySheet_settle later ck (UrlThrew msg) st')) ck = None)"
proof (intro conjI allI impI)
  show "QUERY_CACHE_MS = 120000" by (simp add: QUERY_CACHE_MS_def)
next
  fix hit assume "QUERY_CACHE st ck = Some hit \<and> now - ts hit < QUERY_CACHE_MS"
  then show "gasQuerySheet_call newURL env now warehouse sheet name st = (CacheHit (entry_value hit), st)"
    using assms(1) unfolding ck_def by (auto intro: call_hit)
next
  assume miss: "QUERY_CACHE st ck = None
        \<or> (\<exists>hit. QUERY_CACHE st ck = Some hit \<and> now - ts hit \<ge> QUERY_CACHE_MS)"
  note step = call_miss [OF assms(1) miss [unfolded ck_def], of newURL]
  { assume "QUERY_INFLIGHT st ck = None \<and> newURL base"
    then show "gasQuerySheet_call newURL env now warehouse sheet name st =
               (IssuedFetch (nextPromise st),
                st\<lparr>QUERY_INFLIGHT := (QUERY_INFLIGHT st)(ck \<mapsto> nextPromise st),
                   nextPromise := nextPromise st + 1\<rparr>)"
      using step unfolding ck_def by simp }
  { assume "QUERY_INFLIGHT st ck = None \<and> \<not> newURL base"
    then show "gasQuerySheet_call newURL env now warehouse sheet name st =
               (UrlRejected (nextPromise st),
                st\<lparr>QUERY_INFLIGHT := (QUERY_INFLIGHT st)(ck \<mapsto> nextPromise st),
                   nextPromise := nextPromise st + 1\<rparr>)"
      using step unfolding ck_def by simp }
  { fix p assume "QUERY_INFLIGHT st ck = Some p"
    then show "gasQuerySheet_call newURL env now warehouse sheet name st = (JoinedInflight p, st)"
      using step unfolding ck_def by simp }
qed (simp_all add: settle_success settle_failure settle_payload_error settle_url_failure)

lemma sample_base:
  "getBaseUrl (Some sampleBase) = Some sampleBase"
  "getBaseUrl (Some [117]) = Some [117]"
  by (simp_all add: getBaseUrl_def string_defs)

lemma sample_key:
  "queryKey sampleBase [87] [83] None = sampleKey"
  "queryKey [117] [87] [83] None = [117, 124, 87, 124, 83, 124]"
  by (simp_all add: queryKey_def string_defs)

lemma sample_parser: "sampleUrlParser sampleBase" "\<not> sampleUrlParser [117]"
  by (simp_all add: sampleUrlParser_def)

text \<open>
  The amended C9 at the endpoint http://h, at a state whose cache holds the sample
  sheet, stored at time 1500, under the key of the call.  At time 121499 the call
  returns the stored sheet and changes nothing.  At time 121500 the entry has
  expired: with no pending request the call issues fetch 1 and records it as pending;
  a call at 121501, while fetch 1 is pending, returns that pending request and changes
  nothing.  A response without error is returned, stored with the time of its
  arrival, and the pending mark is removed; a response with an error message is an
  error and stores nothing.  At the endpoint u, which is not a URL, a call from the
  empty state registers request 0, already rejected, and issues no fetch; its
  settlement yields the error, stores nothing and removes the pending mark.
\<close>

theorem C9_query_cache_witness:
  "getBaseUrl (Some sampleBase) = Some sampleBase
   \<and> sampleUrlParser sampleBase
   \<and> queryKey sampleBase [87] [83] None = sampleKey
   \<and> gasQuerySheet_call sampleUrlParser (Some sampleBase) 121499 [87] [83] None
        \<lparr>QUERY_CACHE = [sampleKey \<mapsto> \<lparr>ts = 1500, entry_value = sampleSheet\<rparr>],
         QUERY_INFLIGHT = Map.empty, nextPromise = 1\<rparr>
      = (CacheHit sampleSheet,
         \<lparr>QUERY_CACHE = [sampleKey \<mapsto> \<lparr>ts = 1500, entry_value = sampleSheet\<rparr>],
          QUERY_INFLIGHT = Map.empty, nextPromise = 1\<rparr>)
   \<and> gasQuerySheet_call sampleUrlParser (Some sampleBase) 121500 [87] [83] None
        \<lparr>QUERY_CACHE = [sampleKey \<mapsto> \<lparr>ts = 1500, entry_value = sampleSheet\<rparr>],
         QUERY_INFLIGHT = Map.empty, nextPromise = 1\<rparr>
      = (IssuedFetch 1,
         \<lparr>QUERY_CACHE = [sampleKey \<mapsto> \<lparr>ts = 1500, entry_value = sampleSheet\<rparr>],
          QUERY_INFLIGHT = [sampleKey \<mapsto> 1], nextPromise = 2\<rparr>)
   \<and> gasQuerySheet_call sampleUrlParser (Some sampleBase) 121501 [87] [83] None
        \<lparr>QUERY_CACHE = [sampleKey \<mapsto> \<lparr>ts = 1500, entry_value = sampleSheet\<rparr>],
         QUERY_INFLIGHT = [sampleKey \<mapsto> 1], nextPromise = 2\<rparr>
      = (JoinedInflight 1,
         \<lparr>QUERY_CACHE = [sampleKey \<mapsto> \<lparr>ts = 1500, entry_value = sampleSheet\<rparr>],
          QUERY_INFLIGHT = [sampleKey \<mapsto> 1], nextPromise = 2\<rparr>)
   \<and> fst (gasQuerySheet_settle 1500 sampleKey (FetchedJson sampleSheet)
        \<lparr>QUERY_CACHE = Map.empty, QUERY_INFLIGHT = [sampleKey \<mapsto> 0],
         nextPromise = 1\<rparr>) = Inr sampleSheet
   \<and> QUERY_CACHE (snd (gasQuerySheet_settle 1500 sampleKey (FetchedJson sampleSheet)
        \<lparr>QUERY_CACHE = Map.empty, QUERY_INFLIGHT = [sampleKey \<mapsto> 0],
         nextPromise = 1\<rparr>))
      = [sampleKey \<mapsto> \<lparr>ts = 1500, entry_value = sampleSheet\<rparr>]
   \<and> QUERY_INFLIGHT (snd (gasQuerySheet_settle 1500 sampleKey (FetchedJson sampleSheet)
        \<lparr>QUERY_CACHE = Map.empty, QUERY_INFLIGHT = [sampleKey \<mapsto> 0],
         nextPromise = 1\<rparr>)) sampleKey = None
   \<and> fst (gasQuerySheet_settle 1500 sampleKey
        (FetchedJson (sampleSheet\<lparr>error := Some [120]\<rparr>))
        \<lparr>QUERY_CACHE = Map.empty, QUERY_INFLIGHT = [sampleKey \<mapsto> 0],
         nextPromise = 1\<rparr>) = Inl (PayloadError [120])
   \<and> QUERY_CACHE (snd (gasQuerySheet_settle 1500 sampleKey
        (FetchedJson (sampleSheet\<lparr>error := Some [120]\<rparr>))
        \<lparr>QUERY_CACHE = Map.empty, QUERY_INFLIGHT = [sampleKey \<mapsto> 0],
         nextPromise = 1\<rparr>)) = Map.empty
   \<and> getBaseUrl (Some [117]) = Some [117]
   \<and> \<not> sampleUrlParser [117]
   \<and> gasQuerySheet_call sampleUrlParser (Some [117]) 1000 [87] [83] None emptyQueryState
      = (UrlRejected 0,
         \<lparr>QUERY_CACHE = Map.empty, QUERY_INFLIGHT = [[117, 124, 87, 124, 83, 124] \<mapsto> 0],
          nextPromise = 1\<rparr>)
   \<and> gasQuerySheet_settle 1000 [117, 124, 87, 124, 83, 124] (UrlThrew [120])
        \<lparr>QUERY_CACHE = Map.empty, QUERY_INFLIGHT = [[117, 124, 87, 124, 83, 124] \<mapsto> 0],
         nextPromise = 1\<rparr>
      = (Inl (UrlError [120]),
         \<lparr>QUERY_CACHE = Map.empty, QUERY_INFLIGHT = Map.empty, nextPromise = 1\<rparr>)"
proof -
  let ?st1 = "\<lparr>QUERY_CACHE = [sampleKey \<mapsto> \<lparr>ts = 1500, entry_value = sampleSheet\<rparr>],
         QUERY_INFLIGHT = Map.empty, nextPromise = 1\<rparr>"
  let ?st2 = "\<lparr>QUERY_CACHE = [sampleKey \<mapsto> \<lparr>ts = 1500, entry_value = sampleSheet\<rparr>],
         QUERY_INFLIGHT = [sampleKey \<mapsto> 1], nextPromise = 2\<rparr>"
  let ?st0 = "\<lparr>QUERY_CACHE = Map.empty, QUERY_INFLIGHT = [sampleKey \<mapsto> 0], nextPromise = 1\<rparr>"
  let ?stu = "\<lparr>QUERY_CACHE = Map.empty, QUERY_INFLIGHT = [[117, 124, 87, 124, 83, 124] \<mapsto> 0],
         nextPromise = 1\<rparr>"
  note key = sample_key
  note inst = C9_query_cache_amended [where warehouse = "[87]" and sheet = "[83]" and name = None
      and newURL = sampleUrlParser, OF sample_base(1)]
  note instu = C9_query_cache_amended [where warehouse = "[87]" and sheet = "[83]" and name = None
      and newURL = sampleUrlParser, OF sample_base(2)]
  have hit: "QUERY_CACHE ?st1 (queryKey sampleBase [87] [83] None) = Some \<lparr>ts = 1500, entry_value = sampleSheet\<rparr>
      \<and> (121499 :: int) - ts \<lparr>ts = 1500, entry_value = sampleSheet\<rparr> < QUERY_CACHE_MS"
    by (simp add: key QUERY_CACHE_MS_def)
  have a: "gasQuerySheet_call sampleUrlParser (Some sampleBase) 121499 [87] [83] None ?st1
      = (CacheHit sampleSheet, ?st1)"
    using inst [where st = ?st1 and now = 121499, THEN conjunct2, THEN conjunct1, rule_format, OF hit] by simp
  have old: "QUERY_CACHE ?st1 (queryKey sampleBase [87] [83] None) = None
      \<or> (\<exists>hit. QUERY_CACHE ?st1 (queryKey sampleBase [87] [83] None) = Some hit
               \<and> QUERY_CACHE_MS \<le> 121500 - ts hit)"
    by (simp add: key QUERY_CACHE_MS_def)
  have idle: "QUERY_INFLIGHT ?st1 (queryKey sampleBase [87] [83] None) = None \<and> sampleUrlParser sampleBase"
    by (simp add: sample_parser)
  have b: "gasQuerySheet_call sampleUrlParser (Some sampleBase) 121500 [87] [83] None ?st1
      = (IssuedFetch 1, ?st2)"
    using inst [where st = ?st1 and now = 121500, THEN conjunct2, THEN conjunct2, THEN conjunct1, rule_format,
        OF old, THEN conjunct1, rule_format, OF idle]
    by (simp add: key)
  have old2: "QUERY_CACHE ?st2 (queryKey sampleBase [87] [83] None) = None
      \<or> (\<exists>hit. QUERY_CACHE ?st2 (queryKey sampleBase [87] [83] None) = Some hit
               \<and> QUERY_CACHE_MS \<le> 121501 - ts hit)"
    by (simp add: key QUERY_CACHE_MS_def)
  have busy: "QUERY_INFLIGHT ?st2 (queryKey sampleBase [87] [83] None) = Some 1"
    by (simp add: key)
  have c: "gasQuerySheet_call sampleUrlParser (Some sampleBase) 121501 [87] [83] None ?st2
      = (JoinedInflight 1, ?st2)"
    using inst [where st = ?st2 and now = 121501, THEN conjunct2, THEN conjunct2, THEN conjunct1, rule_format,
        OF old2, THEN conjunct2, THEN conjunct2, rule_format, OF busy] .
  have good: "error sampleSheet = None \<or> error sampleSheet = Some []"
    by simp
  have d: "fst (gasQuerySheet_settle 1500 sampleKey (FetchedJson sampleSheet) ?st0) = Inr sampleSheet
      \<and> QUERY_CACHE (snd (gasQuerySheet_settle 1500 sampleKey (FetchedJson sampleSheet) ?st0))
          = [sampleKey \<mapsto> \<lparr>ts = 1500, entry_value = sampleSheet\<rparr>]
      \<and> QUERY_INFLIGHT (snd (gasQuerySheet_settle 1500 sampleKey (FetchedJson sampleSheet) ?st0)) sampleKey = None"
    using inst [where st = ?st1 and now = 0, THEN conjunct2, THEN conjunct2, THEN conjunct2, THEN conjunct1,
        rule_format, OF good, of 1500 ?st0]
    by (simp add: key)
  have bad: "error (sampleSheet\<lparr>error := Some [120]\<rparr>) = Some [120] \<and> [120] \<noteq> ([] :: ustring)"
    by simp
  have e: "fst (gasQuerySheet_settle 1500 sampleKey (FetchedJson (sampleSheet\<lparr>error := Some [120]\<rparr>)) ?st0)
        = Inl (PayloadError [120])
      \<and> QUERY_CACHE (snd (gasQuerySheet_settle 1500 sampleKey
          (FetchedJson (sampleSheet\<lparr>error := Some [120]\<rparr>)) ?st0)) = Map.empty"
    using inst [where st = ?st1 and now = 0, THEN conjunct2, THEN conjunct2, THEN conjunct2, THEN conjunct2,
        THEN conjunct2, THEN conjunct1, rule_format, OF bad, of 1500 ?st0]
    by (simp add: key)
  have none: "QUERY_CACHE emptyQueryState (queryKey [117] [87] [83] None) = None
      \<or> (\<exists>hit. QUERY_CACHE emptyQueryState (queryKey [117] [87] [83] None) = Some hit
               \<and> QUERY_CACHE_MS \<le> 1000 - ts hit)"
    by simp
  have idleu: "QUERY_INFLIGHT emptyQueryState (queryKey [117] [87] [83] None) = None \<and> \<not> sampleUrlParser [117]"
    by (simp add: sample_parser)
  have f: "gasQuerySheet_call sampleUrlParser (Some [117]) 1000 [87] [83] None emptyQueryState
      = (UrlRejected 0, ?stu)"
    using instu [where st = emptyQueryState and now = 1000, THEN conjunct2, THEN conjunct2, THEN conjunct1,
        rule_format, OF none, THEN conjunct2, THEN conjunct1, rule_format, OF idleu]
    by (simp add: key)
  have g: "gasQuerySheet_settle 1000 [117, 124, 87, 124, 83, 124] (UrlThrew [120]) ?stu
      = (Inl (UrlError [120]),
         \<lparr>QUERY_CACHE = Map.empty, QUERY_INFLIGHT = Map.empty, nextPromise = 1\<rparr>)"
    by (simp add: gasQuerySheet_settle_def)
  show ?thesis
    using sample_base key sample_parser a b c d e f g by simp
qed

text \<open>
  C9 as stated fails: at the endpoint http://h and from the empty state a first call
  issues a fetch; a second call for the same key, made before the response arrives,
  finds no cache entry and yet issues no fetch: it returns the pending request of the
  first.
\<close>

theorem C9_query_cache_counterexample:
  "getBaseUrl (Some sampleBase) = Some sampleBase
   \<and> sampleUrlParser sampleBase
   \<and> fst (gasQuerySheet_call sampleUrlParser (Some sampleBase) 1000 [87] [83] None emptyQueryState)
      = IssuedFetch 0
   \<and> QUERY_CACHE (snd (gasQuerySheet_call sampleUrlParser (Some sampleBase) 1000 [87] [83] None
        emptyQueryState)) (queryKey sampleBase [87] [83] None) = None
   \<and> gasQuerySheet_call sampleUrlParser (Some sampleBase) 1001 [87] [83] None
        (snd (gasQuerySheet_call sampleUrlParser (Some sampleBase) 1000 [87] [83] None emptyQueryState))
      = (JoinedInflight 0,
         snd (gasQuerySheet_call sampleUrlParser (Some sampleBase) 1000 [87] [83] None emptyQueryState))"
  by (simp add: gasQuerySheet_call_def sample_base sample_key sample_parser Let_def)

end
